theory Spec2Isabelle
  imports Complex_Main "HOL-Library.Char_ord" "HOL-Library.List_Lexorder"
    "HOL-Library.Product_Lexorder" "HOL-Library.Multiset"
begin

section \<open>Strings as the database and Python see them\<close>

text \<open>
  Strings are lists of characters. Case mapping is the one of SQL \<open>UPPER\<close> and
  \<open>LOWER\<close> on the ASCII letters; every other character is left as it is.
  \<open>ORDER BY\<close> on a text column is modelled by the bytewise lexicographic order
  on strings, and the rows of a table are kept in the order in which an unordered
  \<open>SELECT\<close> returns them.
\<close>

definition lower_letters :: string where
  "lower_letters = ''abcdefghijklmnopqrstuvwxyz''"

definition upper_letters :: string where
  "upper_letters = ''ABCDEFGHIJKLMNOPQRSTUVWXYZ''"

definition upper_char :: "char \<Rightarrow> char" where
  "upper_char c = (case map_of (zip lower_letters upper_letters) c of None \<Rightarrow> c | Some u \<Rightarrow> u)"

definition lower_char :: "char \<Rightarrow> char" where
  "lower_char c = (case map_of (zip upper_letters lower_letters) c of None \<Rightarrow> c | Some l \<Rightarrow> l)"

definition UPPER :: "string \<Rightarrow> string" where
  "UPPER s = map upper_char s"

definition LOWER :: "string \<Rightarrow> string" where
  "LOWER s = map lower_char s"

subsection \<open>The SQL \<open>LIKE\<close> operator\<close>

text \<open>
  A \<open>LIKE\<close> pattern is read left to right: \<open>%\<close> stands for any run of
  characters, \<open>_\<close> for any one character, and a backslash makes the next character
  literal. A pattern ending in a lone backslash is rejected by the database.
\<close>

datatype like_tok = AnySeq | AnyOne | Lit char

fun like_tokens :: "string \<Rightarrow> like_tok list option" where
  "like_tokens [] = Some []"
| "like_tokens (c # cs) =
     (if c = CHR 0x5C then
        (case cs of [] \<Rightarrow> None
         | d # ds \<Rightarrow> map_option ((#) (Lit d)) (like_tokens ds))
      else if c = CHR ''%'' then map_option ((#) AnySeq) (like_tokens cs)
      else if c = CHR ''_'' then map_option ((#) AnyOne) (like_tokens cs)
      else map_option ((#) (Lit c)) (like_tokens cs))"

fun like_match :: "like_tok list \<Rightarrow> string \<Rightarrow> bool" where
  "like_match [] t = (t = [])"
| "like_match (Lit c # ps) [] = False"
| "like_match (Lit c # ps) (x # t) = (c = x \<and> like_match ps t)"
| "like_match (AnyOne # ps) [] = False"
| "like_match (AnyOne # ps) (x # t) = like_match ps t"
| "like_match (AnySeq # ps) [] = like_match ps []"
| "like_match (AnySeq # ps) (x # t) = (like_match ps (x # t) \<or> like_match (AnySeq # ps) t)"

section \<open>The relational store\<close>

text \<open>
  The four tables the queries read. A timestamp is the tuple (year, month, day, hour,
  minute, second, microsecond), compared lexicographically, which is how both Python and
  the database compare timestamps without a time zone.
\<close>

type_synonym datetime = "nat \<times> nat \<times> nat \<times> nat \<times> nat \<times> nat \<times> nat"

record resources_rec =
  reresourceid :: string
  redescri :: string
  retype :: string
  recodcal :: string
  flactive :: int

record resourcelist_rec =
  rlresourceid :: "string option"
  rlprevbegin :: datetime
  rlprevend :: datetime

record tasks_rec =
  tetitle :: string
  tetaskid :: string
  tecodcal :: string
  telocation :: string
  telisris :: string
  teprevbegin :: datetime
  teprevend :: datetime
  testato :: string

record calendar_rec =
  cacodcal :: string
  cadescri :: string

record database =
  resources_tbl :: "resources_rec list"
  resourcelist_tbl :: "resourcelist_rec list"
  tasks_tbl :: "tasks_rec list"
  calendar_tbl :: "calendar_rec list"

text \<open>
  What a call finds around itself: the environment variable \<open>CALENDAR_CODES\<close> (which may
  be unset) and the database, \<open>None\<close> when \<open>psycopg2.connect\<close> fails.
\<close>

record world =
  CALENDAR_CODES :: "string option"
  db :: "database option"

text \<open>Exceptions raised inside the tools, and the statements sent to the database.\<close>

datatype pyexn =
    ValueError_no_match string
  | ValueError_unconverted string
  | ValueError_out_of_range
  | AttributeError_NoneType
  | IndexError
  | IndexError_params
  | TypeError_params
  | OperationalError
  | DataError_like
  | ProgrammingError_syntax

datatype query =
    Q_exact_id string
  | Q_description string
  | Q_count_conflicts string datetime datetime
  | Q_group_conflicts "string list" datetime datetime
  | Q_active_bookings datetime datetime "string list"
  | Q_free_resources datetime datetime
  | Q_list_resources

section \<open>\<open>database.py\<close>: resolving a resource token\<close>

text \<open>The four columns \<open>reresourceid, redescri, retype, recodcal\<close> of a selected row.\<close>

record resource_row =
  row_reresourceid :: string
  row_redescri :: string
  row_retype :: string
  row_recodcal :: string

definition select_row :: "resources_rec \<Rightarrow> resource_row" where
  "select_row r = \<lparr>row_reresourceid = reresourceid r, row_redescri = redescri r,
     row_retype = retype r, row_recodcal = recodcal r\<rparr>"

datatype res_type = Exact | Single | Multiple

datatype resource_info =
    Found (rtype: res_type) (resources: "resource_row list") (calendar_code: string)
  | Not_found

definition exact_id_rows :: "database \<Rightarrow> string \<Rightarrow> resource_row list" where
  "exact_id_rows d resource =
     map select_row
       (filter (\<lambda>r. UPPER (reresourceid r) = UPPER resource \<and> flactive r = 1) (resources_tbl d))"

definition description_rows :: "database \<Rightarrow> like_tok list \<Rightarrow> resource_row list" where
  "description_rows d pat =
     sort_key row_reresourceid
       (map select_row
         (filter (\<lambda>r. like_match pat (LOWER (redescri r)) \<and> flactive r = 1) (resources_tbl d)))"

definition resolve_resource_info :: "world \<Rightarrow> string \<Rightarrow> query list \<times> (pyexn + resource_info)" where
  "resolve_resource_info w resource =
     (case db w of
        None \<Rightarrow> ([], Inl OperationalError)
      | Some d \<Rightarrow>
          (case exact_id_rows d resource of
             exact_match # _ \<Rightarrow>
               ([Q_exact_id resource],
                Inr (Found Exact [exact_match] (row_recodcal exact_match)))
           | [] \<Rightarrow>
               (case like_tokens (LOWER (''%'' @ resource @ ''%'')) of
                  None \<Rightarrow> ([Q_exact_id resource, Q_description resource], Inl DataError_like)
                | Some pat \<Rightarrow>
                    (case description_rows d pat of
                       [] \<Rightarrow> ([Q_exact_id resource, Q_description resource], Inr Not_found)
                     | m # ms \<Rightarrow>
                         ([Q_exact_id resource, Q_description resource],
                          Inr (Found (if length (m # ms) > 1 then Multiple else Single)
                                 (m # ms) (row_recodcal m)))))))"

subsection \<open>The description match in the words of the specification\<close>

text \<open>
  The specification says that a description matches when it contains the token as a
  case-insensitive substring. This definition follows those words, for comparison with
  the \<open>LIKE\<close> match of the code.
\<close>

fun is_substring :: "string \<Rightarrow> string \<Rightarrow> bool" where
  "is_substring t [] = (t = [])"
| "is_substring t (x # s) = (take (length t) (x # s) = t \<or> is_substring t s)"

definition spec_description_match :: "string \<Rightarrow> string \<Rightarrow> bool" where
  "spec_description_match token descr = is_substring (LOWER token) (LOWER descr)"

text \<open>The characters with a special meaning in a \<open>LIKE\<close> pattern.\<close>

definition like_special :: "char \<Rightarrow> bool" where
  "like_special c \<longleftrightarrow> c = CHR ''%'' \<or> c = CHR ''_'' \<or> c = CHR 0x5C"

section \<open>Parsing the window: \<open>datetime.strptime(s, "%Y-%m-%d %H:%M")\<close>\<close>

text \<open>
  \<open>strptime\<close> turns the format into the regular expression
  \<^verbatim>\<open>(?P<Y>\d\d\d\d)-(?P<m>1[0-2]|0[1-9]|[1-9])-(?P<d>3[0-1]|[1-2]\d|0[1-9]|[1-9]| [1-9])\s+(?P<H>2[0-3]|[0-1]\d|\d):(?P<M>[0-5]\d|\d)\<close>,
  matches it at the start of the string with backtracking, and raises \<open>ValueError\<close>
  when nothing matches, when text remains after the match, or when the date does not exist.
  Each piece of the expression is a function from the text to the list of its possible
  matches (value and remaining text), in the order in which the matcher tries them; the
  match found is the first of the whole sequence.
\<close>

definition is_digit :: "char \<Rightarrow> bool" where
  "is_digit c \<longleftrightarrow> c \<in> set ''0123456789''"

definition digit_val :: "char \<Rightarrow> nat" where
  "digit_val c =
     (case map_of (zip ''0123456789'' [0, 1, 2, 3, 4, 5, 6, 7, 8, 9]) c of
        None \<Rightarrow> 0 | Some n \<Rightarrow> n)"

definition is_space :: "char \<Rightarrow> bool" where
  "is_space c \<longleftrightarrow> c \<in> set [CHR 0x09, CHR 0x0A, CHR 0x0B, CHR 0x0C, CHR 0x0D, CHR 0x1C,
     CHR 0x1D, CHR 0x1E, CHR 0x1F, CHR 0x20, CHR 0x85, CHR 0xA0]"

definition re_lit :: "char \<Rightarrow> string \<Rightarrow> string list" where
  "re_lit c s = (case s of [] \<Rightarrow> [] | x # r \<Rightarrow> if x = c then [r] else [])"

fun re_spaces :: "string \<Rightarrow> string list" where
  "re_spaces [] = []"
| "re_spaces (x # r) = (if is_space x then re_spaces r @ [r] else [])"

definition re_Y :: "string \<Rightarrow> (nat \<times> string) list" where
  "re_Y s =
     (case s of
        a # b # c # d # r \<Rightarrow>
          if is_digit a \<and> is_digit b \<and> is_digit c \<and> is_digit d
          then [(1000 * digit_val a + 100 * digit_val b + 10 * digit_val c + digit_val d, r)]
          else []
      | _ \<Rightarrow> [])"

definition two_chars :: "(char \<Rightarrow> bool) \<Rightarrow> (char \<Rightarrow> bool) \<Rightarrow> string \<Rightarrow> (nat \<times> string) list" where
  "two_chars p q s =
     (case s of
        a # b # r \<Rightarrow> if p a \<and> q b then [(10 * digit_val a + digit_val b, r)] else []
      | _ \<Rightarrow> [])"

definition one_char :: "(char \<Rightarrow> bool) \<Rightarrow> string \<Rightarrow> (nat \<times> string) list" where
  "one_char p s = (case s of [] \<Rightarrow> [] | a # r \<Rightarrow> if p a then [(digit_val a, r)] else [])"

definition re_m :: "string \<Rightarrow> (nat \<times> string) list" where
  "re_m s =
     two_chars (\<lambda>a. a = CHR ''1'') (\<lambda>b. b \<in> set ''012'') s
     @ two_chars (\<lambda>a. a = CHR ''0'') (\<lambda>b. b \<in> set ''123456789'') s
     @ one_char (\<lambda>a. a \<in> set ''123456789'') s"

definition re_d :: "string \<Rightarrow> (nat \<times> string) list" where
  "re_d s =
     two_chars (\<lambda>a. a = CHR ''3'') (\<lambda>b. b \<in> set ''01'') s
     @ two_chars (\<lambda>a. a \<in> set ''12'') is_digit s
     @ two_chars (\<lambda>a. a = CHR ''0'') (\<lambda>b. b \<in> set ''123456789'') s
     @ one_char (\<lambda>a. a \<in> set ''123456789'') s
     @ two_chars (\<lambda>a. a = CHR '' '') (\<lambda>b. b \<in> set ''123456789'') s"

definition re_H :: "string \<Rightarrow> (nat \<times> string) list" where
  "re_H s =
     two_chars (\<lambda>a. a = CHR ''2'') (\<lambda>b. b \<in> set ''0123'') s
     @ two_chars (\<lambda>a. a \<in> set ''01'') is_digit s
     @ one_char is_digit s"

definition re_M :: "string \<Rightarrow> (nat \<times> string) list" where
  "re_M s = two_chars (\<lambda>a. a \<in> set ''012345'') is_digit s @ one_char is_digit s"

definition strptime_matches :: "string \<Rightarrow> ((nat \<times> nat \<times> nat \<times> nat \<times> nat) \<times> string) list" where
  "strptime_matches s =
     [((Y, m, d, H, M), r9).
        (Y, r1) \<leftarrow> re_Y s, r2 \<leftarrow> re_lit CHR ''-'' r1,
        (m, r3) \<leftarrow> re_m r2, r4 \<leftarrow> re_lit CHR ''-'' r3,
        (d, r5) \<leftarrow> re_d r4, r6 \<leftarrow> re_spaces r5,
        (H, r7) \<leftarrow> re_H r6, r8 \<leftarrow> re_lit CHR '':'' r7,
        (M, r9) \<leftarrow> re_M r8]"

definition is_leap :: "nat \<Rightarrow> bool" where
  "is_leap y \<longleftrightarrow> y mod 4 = 0 \<and> (y mod 100 \<noteq> 0 \<or> y mod 400 = 0)"

definition days_in_month :: "nat \<Rightarrow> nat \<Rightarrow> nat" where
  "days_in_month y m =
     (if m = 2 \<and> is_leap y then 29
      else [0, 31, 28, 31, 30, 31, 30, 31, 31, 30, 31, 30, 31] ! m)"

definition strptime :: "string \<Rightarrow> pyexn + datetime" where
  "strptime s =
     (case strptime_matches s of
        [] \<Rightarrow> Inl (ValueError_no_match s)
      | ((Y, m, d, H, M), rest) # _ \<Rightarrow>
          if rest \<noteq> [] then Inl (ValueError_unconverted rest)
          else if Y < 1 \<or> days_in_month Y m < d then Inl ValueError_out_of_range
          else Inr (Y, m, d, H, M, 0, 0))"

section \<open>\<open>booking_tools.py\<close>: the calendar allow-list\<close>

text \<open>\<open>str.split(',')\<close> and \<open>str.strip()\<close>, then \<open>get_calendar_codes\<close>.\<close>

fun split_comma :: "string \<Rightarrow> string list" where
  "split_comma [] = [[]]"
| "split_comma (c # cs) =
     (if c = CHR '','' then [] # split_comma cs
      else (case split_comma cs of [] \<Rightarrow> [[c]] | x # xs \<Rightarrow> (c # x) # xs))"

definition strip :: "string \<Rightarrow> string" where
  "strip s = dropWhile is_space (rev (dropWhile is_space (rev s)))"

definition get_calendar_codes :: "world \<Rightarrow> pyexn + string list" where
  "get_calendar_codes w =
     (case CALENDAR_CODES w of
        None \<Rightarrow> Inl AttributeError_NoneType
      | Some calendar_codes \<Rightarrow> Inr (map strip (split_comma calendar_codes)))"

section \<open>\<open>booking_tools.py\<close>: checking the availability of a resource\<close>

text \<open>
  A tool returns JSON text: either the object \<open>{"error": ...}\<close>, whose text is a message
  built by the tool or \<open>str(e)\<close> of the exception caught, or a report.
\<close>

datatype error_text = Text string | Str pyexn

datatype 'a json = Error_json error_text | Report_json 'a

record risorsa_specifica =
  s_ricerca_originale :: string
  s_id :: string
  s_descrizione :: string
  disponibile :: bool
  conflitti :: nat

record ricerca_multipla =
  m_ricerca_originale :: string
  risorse_trovate :: nat
  elenco_risorse :: "string list"
  almeno_una_libera :: bool
  risorse_libere :: "string list"
  risorse_occupate :: "string list"
  totale_libere :: nat
  totale_occupate :: nat

datatype availability = Specifica risorsa_specifica | Multipla ricerca_multipla

text \<open>The two conflict queries on \<open>resourcelist\<close>: the count for one resource, and the
  grouped counts, which have a row only for a resource with at least one conflict.\<close>

definition overlaps :: "resourcelist_rec \<Rightarrow> datetime \<Rightarrow> datetime \<Rightarrow> bool" where
  "overlaps r end_dt start_dt \<longleftrightarrow> rlprevbegin r < end_dt \<and> rlprevend r > start_dt"

definition count_conflicts :: "database \<Rightarrow> string \<Rightarrow> datetime \<Rightarrow> datetime \<Rightarrow> nat" where
  "count_conflicts d resource_id end_dt start_dt =
     length (filter (\<lambda>r. rlresourceid r = Some resource_id \<and> overlaps r end_dt start_dt)
       (resourcelist_tbl d))"

definition group_conflicts :: "database \<Rightarrow> string list \<Rightarrow> datetime \<Rightarrow> datetime \<Rightarrow> (string \<times> nat) list" where
  "group_conflicts d resource_ids end_dt start_dt =
     (let sel = filter (\<lambda>r. (case rlresourceid r of None \<Rightarrow> False | Some i \<Rightarrow> i \<in> set resource_ids)
                          \<and> overlaps r end_dt start_dt) (resourcelist_tbl d)
      in map (\<lambda>k. (k, length (filter (\<lambda>r. rlresourceid r = Some k) sel)))
           (remdups (List.map_filter rlresourceid sel)))"

definition not_found_message :: "string \<Rightarrow> string" where
  "not_found_message resource = ''Risorsa '' @ [CHR 0x27] @ resource @ [CHR 0x27] @ '' non trovata''"

definition availability_response :: "string \<Rightarrow> database \<Rightarrow> res_type \<Rightarrow> resource_row list
    \<Rightarrow> datetime \<Rightarrow> datetime \<Rightarrow> query list \<times> (pyexn + availability json)" where
  "availability_response resource d ty rs end_dt start_dt =
     (if ty = Exact then
        (case rs of
           [] \<Rightarrow> ([], Inl IndexError)
         | r0 # _ \<Rightarrow>
             (let resource_id = row_reresourceid r0;
                  n = count_conflicts d resource_id end_dt start_dt
              in ([Q_count_conflicts resource_id end_dt start_dt],
                  Inr (Report_json (Specifica
                    \<lparr>s_ricerca_originale = resource, s_id = row_reresourceid r0,
                     s_descrizione = row_redescri r0, disponibile = (n = 0), conflitti = n\<rparr>)))))
      else
        (let resource_ids = map row_reresourceid rs in
         if resource_ids = [] then ([], Inl ProgrammingError_syntax)
         else
           (let busy_resources = map_of (group_conflicts d resource_ids end_dt start_dt);
                free_resources = filter (\<lambda>i. busy_resources i = None) resource_ids;
                busy_list = filter (\<lambda>i. busy_resources i \<noteq> None) resource_ids
            in ([Q_group_conflicts resource_ids end_dt start_dt],
                Inr (Report_json (Multipla
                  \<lparr>m_ricerca_originale = resource, risorse_trovate = length rs,
                   elenco_risorse = map row_reresourceid rs,
                   almeno_una_libera = (length free_resources > 0),
                   risorse_libere = free_resources, risorse_occupate = busy_list,
                   totale_libere = length free_resources,
                   totale_occupate = length busy_list\<rparr>))))))"

definition check_resource_availability_try :: "world \<Rightarrow> string \<Rightarrow> string \<Rightarrow> string
    \<Rightarrow> query list \<times> (pyexn + availability json)" where
  "check_resource_availability_try w resource start_time end_time =
     (case strptime start_time of
        Inl e \<Rightarrow> ([], Inl e)
      | Inr start_dt \<Rightarrow>
     (case strptime end_time of
        Inl e \<Rightarrow> ([], Inl e)
      | Inr end_dt \<Rightarrow>
     (case resolve_resource_info w resource of
        (qs, Inl e) \<Rightarrow> (qs, Inl e)
      | (qs, Inr Not_found) \<Rightarrow> (qs, Inr (Error_json (Text (not_found_message resource))))
      | (qs, Inr (Found ty rs cal)) \<Rightarrow>
          (case db w of
             None \<Rightarrow> (qs, Inl OperationalError)
           | Some d \<Rightarrow>
               (case availability_response resource d ty rs end_dt start_dt of
                  (qs', res) \<Rightarrow> (qs @ qs', res))))))"

text \<open>The exceptions that are a \<open>ValueError\<close>.\<close>

fun is_ValueError :: "pyexn \<Rightarrow> bool" where
  "is_ValueError (ValueError_no_match s) = True"
| "is_ValueError (ValueError_unconverted s) = True"
| "is_ValueError ValueError_out_of_range = True"
| "is_ValueError _ = False"

text \<open>The \<open>try\<close> block with its handler \<open>except Exception as e\<close>.\<close>

definition catch_all :: "query list \<times> (pyexn + 'a json) \<Rightarrow> query list \<times> 'a json" where
  "catch_all r = (case r of (qs, Inl e) \<Rightarrow> (qs, Error_json (Str e)) | (qs, Inr j) \<Rightarrow> (qs, j))"

definition check_resource_availability :: "world \<Rightarrow> string \<Rightarrow> string \<Rightarrow> string
    \<Rightarrow> query list \<times> availability json" where
  "check_resource_availability w resource start_time end_time =
     catch_all (check_resource_availability_try w resource start_time end_time)"

section \<open>\<open>booking_tools.py\<close>: the active bookings of a period\<close>

text \<open>
  The hours of the report are floating-point numbers, and the timestamps of the events are
  printed by \<open>strftime\<close>. The model takes these library operations as parameters and
  fixes nothing about them: \<open>db_hours a b\<close> is the column
  \<open>EXTRACT(EPOCH FROM (b - a))/3600\<close> as Python receives it (after \<open>float()\<close>),
  \<open>py_hours a b\<close> is \<open>(b - a).total_seconds() / 3600\<close>, \<open>fadd\<close> is the
  addition of two floats, \<open>fzero\<close> the initial \<open>0\<close> of the accumulators, and
  \<open>round1 x\<close> is \<open>round(x, 1)\<close>.
\<close>

record 'f library =
  strftime :: "datetime \<Rightarrow> string"
  db_hours :: "datetime \<Rightarrow> datetime \<Rightarrow> 'f"
  py_hours :: "datetime \<Rightarrow> datetime \<Rightarrow> 'f"
  fadd :: "'f \<Rightarrow> 'f \<Rightarrow> 'f"
  fzero :: 'f
  round1 :: "'f \<Rightarrow> 'f"

record 'f booking_row =
  evento :: string
  id_evento :: string
  cod_calendario :: string
  nome_calendario :: string
  location :: string
  lista_risorse :: string
  inizio :: datetime
  fine :: datetime
  durata_ore :: 'f

definition booking_of :: "'f library \<Rightarrow> tasks_rec \<Rightarrow> calendar_rec \<Rightarrow> 'f booking_row" where
  "booking_of L T1 T2 =
     \<lparr>evento = tetitle T1, id_evento = tetaskid T1, cod_calendario = cacodcal T2,
      nome_calendario = cadescri T2, location = telocation T1, lista_risorse = telisris T1,
      inizio = teprevbegin T1, fine = teprevend T1,
      durata_ore = db_hours L (teprevbegin T1) (teprevend T1)\<rparr>"

definition active_bookings_rows :: "'f library \<Rightarrow> database \<Rightarrow> datetime \<Rightarrow> datetime \<Rightarrow> string list
    \<Rightarrow> 'f booking_row list" where
  "active_bookings_rows L d end_dt start_dt calendar_codes =
     sort_key (\<lambda>b. (nome_calendario b, inizio b))
       [booking_of L T1 T2.
          T1 \<leftarrow> tasks_tbl d, T2 \<leftarrow> calendar_tbl d,
          tecodcal T1 = cacodcal T2,
          teprevbegin T1 \<le> end_dt \<and> teprevend T1 \<ge> start_dt \<and> testato T1 = ''C''
            \<and> cacodcal T2 \<in> set calendar_codes]"

text \<open>
  The statement has five placeholders, two for the window and three for the calendar codes,
  and receives \<open>(end_dt, start_dt) + tuple(calendar_codes)\<close>. The driver fills the
  placeholders before it sends anything: with fewer than three codes it raises
  \<open>IndexError\<close>, with more than three \<open>TypeError\<close>.
\<close>

definition execute_active_bookings :: "'f library \<Rightarrow> database \<Rightarrow> datetime \<Rightarrow> datetime \<Rightarrow> string list
    \<Rightarrow> query list \<times> (pyexn + 'f booking_row list)" where
  "execute_active_bookings L d end_dt start_dt calendar_codes =
     (if length calendar_codes < 3 then ([], Inl IndexError_params)
      else if length calendar_codes > 3 then ([], Inl TypeError_params)
      else ([Q_active_bookings end_dt start_dt calendar_codes],
            Inr (active_bookings_rows L d end_dt start_dt calendar_codes)))"

record 'f evento_info =
  e_evento :: string
  e_id_evento :: string
  e_inizio :: string
  e_fine :: string
  e_durata_ore :: 'f
  e_risorse_impegnate :: string

record 'f calendario =
  c_nome_calendario :: string
  eventi :: "'f evento_info list"
  ore_totali :: 'f

record 'f bookings_report =
  periodo_inizio :: string
  periodo_fine :: string
  durata_totale_ore :: 'f
  risorse_impegnate :: nat
  eventi_totali :: nat
  riepilogo_ore_totali :: 'f
  risorse :: "(string \<times> 'f calendario) list"

definition evento_info_of :: "'f library \<Rightarrow> 'f booking_row \<Rightarrow> 'f evento_info" where
  "evento_info_of L booking =
     \<lparr>e_evento = evento booking, e_id_evento = id_evento booking,
      e_inizio = strftime L (inizio booking), e_fine = strftime L (fine booking),
      e_durata_ore = round1 L (durata_ore booking),
      e_risorse_impegnate = lista_risorse booking\<rparr>"

text \<open>
  The dictionary \<open>bookings_by_resource\<close> keeps its keys in insertion order; it is a list
  of pairs with distinct keys. One round of the loop over the rows:
\<close>

definition update_entry :: "string \<Rightarrow> ('v \<Rightarrow> 'v) \<Rightarrow> (string \<times> 'v) list \<Rightarrow> (string \<times> 'v) list" where
  "update_entry k f kvs = map (\<lambda>(k', v). if k' = k then (k', f v) else (k', v)) kvs"

definition add_booking :: "'f library \<Rightarrow> (string \<times> 'f calendario) list \<times> nat \<times> 'f \<Rightarrow> 'f booking_row
    \<Rightarrow> (string \<times> 'f calendario) list \<times> nat \<times> 'f" where
  "add_booking L st booking =
     (case st of (bookings_by_resource, total_events, total_hours) \<Rightarrow>
        (let cod_cal = cod_calendario booking;
             by_resource =
               (if cod_cal \<notin> fst ` set bookings_by_resource
                then bookings_by_resource @
                       [(cod_cal, \<lparr>c_nome_calendario = nome_calendario booking, eventi = [],
                                   ore_totali = fzero L\<rparr>)]
                else bookings_by_resource);
             d = durata_ore booking
         in (update_entry cod_cal
               (\<lambda>c. c\<lparr>eventi := eventi c @ [evento_info_of L booking],
                       ore_totali := fadd L (ore_totali c) d\<rparr>) by_resource,
             total_events + 1,
             fadd L total_hours d)))"

definition build_report :: "'f library \<Rightarrow> string \<Rightarrow> string \<Rightarrow> datetime \<Rightarrow> datetime \<Rightarrow> 'f booking_row list
    \<Rightarrow> 'f bookings_report" where
  "build_report L start_time end_time start_dt end_dt results =
     (case foldl (add_booking L) ([], 0, fzero L) results of
        (bookings_by_resource, total_events, total_hours) \<Rightarrow>
          (let rounded = map (\<lambda>(k, c). (k, c\<lparr>ore_totali := round1 L (ore_totali c)\<rparr>))
                           bookings_by_resource
           in \<lparr>periodo_inizio = start_time, periodo_fine = end_time,
               durata_totale_ore = round1 L (py_hours L start_dt end_dt),
               risorse_impegnate = length rounded,
               eventi_totali = total_events,
               riepilogo_ore_totali = round1 L total_hours,
               risorse = rounded\<rparr>))"

definition get_active_bookings_try :: "'f library \<Rightarrow> world \<Rightarrow> string \<Rightarrow> string
    \<Rightarrow> query list \<times> (pyexn + 'f bookings_report json)" where
  "get_active_bookings_try L w start_time end_time =
     (case strptime start_time of
        Inl e \<Rightarrow> ([], Inl e)
      | Inr start_dt \<Rightarrow>
     (case strptime end_time of
        Inl e \<Rightarrow> ([], Inl e)
      | Inr end_dt \<Rightarrow>
     (case get_calendar_codes w of
        Inl e \<Rightarrow> ([], Inl e)
      | Inr calendar_codes \<Rightarrow>
     (case db w of
        None \<Rightarrow> ([], Inl OperationalError)
      | Some d \<Rightarrow>
     (case execute_active_bookings L d end_dt start_dt calendar_codes of
        (qs, Inl e) \<Rightarrow> (qs, Inl e)
      | (qs, Inr results) \<Rightarrow>
          (qs, Inr (Report_json
                 (build_report L start_time end_time start_dt end_dt results))))))))"

definition get_active_bookings :: "'f library \<Rightarrow> world \<Rightarrow> string \<Rightarrow> string
    \<Rightarrow> query list \<times> 'f bookings_report json" where
  "get_active_bookings L w start_time end_time =
     catch_all (get_active_bookings_try L w start_time end_time)"

text \<open>All the events of a report, calendar after calendar.\<close>

definition report_events :: "'f bookings_report \<Rightarrow> 'f evento_info list" where
  "report_events rep = concat (map (\<lambda>(k, c). eventi c) (risorse rep))"

definition events_of :: "(string \<times> 'f calendario) list \<Rightarrow> 'f evento_info list" where
  "events_of kvs = concat (map (\<lambda>(k, c). eventi c) kvs)"

primrec json_events :: "'f bookings_report json \<Rightarrow> 'f evento_info list" where
  "json_events (Error_json e) = []"
| "json_events (Report_json rep) = report_events rep"

section \<open>\<open>resource_tools.py\<close>: listing resources and finding the free ones\<close>

text \<open>
  The three type codes read from the environment when the module is loaded; a variable
  that is not set gives \<open>None\<close>, which the driver sends as \<open>NULL\<close>, and a
  comparison with \<open>NULL\<close> never holds.
\<close>

record resource_types =
  ROOMS_TYPE :: "string option"
  VEHICLES_TYPE :: "string option"
  PROJECTORS_TYPE :: "string option"

record resource_entry =
  entry_id :: string
  entry_description :: string
  entry_type :: string
  entry_calendar_code :: string

record resources_listing =
  total_resources :: nat
  listed_resources :: "resource_entry list"

definition list_available_resources_try :: "world \<Rightarrow> query list \<times> (pyexn + resources_listing json)" where
  "list_available_resources_try w =
     (case db w of
        None \<Rightarrow> ([], Inl OperationalError)
      | Some d \<Rightarrow>
          (let results = sort_key (\<lambda>r. (row_retype r, row_redescri r))
                           (map select_row (filter (\<lambda>r. flactive r = 1) (resources_tbl d)));
               resources = map (\<lambda>r. \<lparr>entry_id = row_reresourceid r,
                                       entry_description = row_redescri r,
                                       entry_type = row_retype r,
                                       entry_calendar_code = row_recodcal r\<rparr>) results
           in ([Q_list_resources],
               Inr (Report_json \<lparr>total_resources = length resources,
                                  listed_resources = resources\<rparr>))))"

definition list_available_resources :: "world \<Rightarrow> query list \<times> resources_listing json" where
  "list_available_resources w = catch_all (list_available_resources_try w)"

record free_row =
  free_reresourceid :: string
  free_redescri :: string
  free_retype :: string
  tipo_descrizione :: string

definition tipo_descrizione_of :: "resource_types \<Rightarrow> string \<Rightarrow> string" where
  "tipo_descrizione_of T ty =
     (if ROOMS_TYPE T = Some ty then ''Aule/Stanze''
      else if VEHICLES_TYPE T = Some ty then ''Automezzi''
      else if PROJECTORS_TYPE T = Some ty then ''Proiettori''
      else ''Altro'')"

text \<open>The common table expression \<open>busy_resources\<close>, then the rows of the query.\<close>

definition busy_resources :: "database \<Rightarrow> datetime \<Rightarrow> datetime \<Rightarrow> string option list" where
  "busy_resources d end_dt start_dt =
     remdups (map rlresourceid (filter (\<lambda>r. overlaps r end_dt start_dt) (resourcelist_tbl d)))"

definition free_resources_rows :: "resource_types \<Rightarrow> database \<Rightarrow> datetime \<Rightarrow> datetime \<Rightarrow> free_row list" where
  "free_resources_rows T d end_dt start_dt =
     sort_key (\<lambda>r. (free_retype r, free_reresourceid r))
       (map (\<lambda>res. \<lparr>free_reresourceid = reresourceid res, free_redescri = redescri res,
                     free_retype = retype res,
                     tipo_descrizione = tipo_descrizione_of T (retype res)\<rparr>)
         (filter (\<lambda>res. flactive res = 1
                    \<and> Some (reresourceid res) \<notin>
                        set (filter (\<lambda>i. i \<noteq> None) (busy_resources d end_dt start_dt)))
            (resources_tbl d)))"

record free_entry =
  free_id :: string
  free_descrizione :: string
  tipo_codice :: string

record 'f free_report =
  richiesto_inizio :: string
  richiesto_fine :: string
  richiesto_durata_ore :: 'f
  risorse_libere_totali :: nat
  tipi_disponibili :: nat
  risorse_per_tipo :: "(string \<times> free_entry list) list"

definition add_free :: "(string \<times> free_entry list) list \<times> nat \<Rightarrow> free_row
    \<Rightarrow> (string \<times> free_entry list) list \<times> nat" where
  "add_free st r =
     (case st of (resources_by_type, total_free) \<Rightarrow>
        (let tipo = tipo_descrizione r;
             by_type = (if tipo \<notin> fst ` set resources_by_type
                        then resources_by_type @ [(tipo, [])] else resources_by_type)
         in (update_entry tipo
               (\<lambda>es. es @ [\<lparr>free_id = free_reresourceid r, free_descrizione = free_redescri r,
                              tipo_codice = free_retype r\<rparr>]) by_type,
             total_free + 1)))"

definition find_free_resources_try :: "'f library \<Rightarrow> resource_types \<Rightarrow> world \<Rightarrow> string \<Rightarrow> string
    \<Rightarrow> query list \<times> (pyexn + 'f free_report json)" where
  "find_free_resources_try L T w start_time end_time =
     (case strptime start_time of
        Inl e \<Rightarrow> ([], Inl e)
      | Inr start_dt \<Rightarrow>
     (case strptime end_time of
        Inl e \<Rightarrow> ([], Inl e)
      | Inr end_dt \<Rightarrow>
     (case db w of
        None \<Rightarrow> ([], Inl OperationalError)
      | Some d \<Rightarrow>
          (case foldl add_free ([], 0) (free_resources_rows T d end_dt start_dt) of
             (resources_by_type, total_free) \<Rightarrow>
               ([Q_free_resources end_dt start_dt],
                Inr (Report_json
                  \<lparr>richiesto_inizio = start_time, richiesto_fine = end_time,
                   richiesto_durata_ore = round1 L (py_hours L start_dt end_dt),
                   risorse_libere_totali = total_free,
                   tipi_disponibili = length resources_by_type,
                   risorse_per_tipo = resources_by_type\<rparr>))))))"

definition find_free_resources :: "'f library \<Rightarrow> resource_types \<Rightarrow> world \<Rightarrow> string \<Rightarrow> string
    \<Rightarrow> query list \<times> 'f free_report json" where
  "find_free_resources L T w start_time end_time =
     catch_all (find_free_resources_try L T w start_time end_time)"

section \<open>Reading the answers\<close>

text \<open>Whether an answer is a report, and whether a statement is a conflict query.\<close>

primrec is_report :: "'a json \<Rightarrow> bool" where
  "is_report (Error_json e) = False"
| "is_report (Report_json r) = True"

fun is_conflict_query :: "query \<Rightarrow> bool" where
  "is_conflict_query (Q_count_conflicts i e s) = True"
| "is_conflict_query (Q_group_conflicts ids e s) = True"
| "is_conflict_query q = False"

text \<open>
  The form \<open>YYYY-MM-DD HH:MM\<close> in the words of the specification: sixteen characters,
  digits where the template has a letter and the template's own character elsewhere.
\<close>

definition ymd_hm_form :: "string \<Rightarrow> bool" where
  "ymd_hm_form s \<longleftrightarrow>
     list_all2 (\<lambda>t c. if t \<in> set ''YMDH'' then is_digit c else c = t) ''YYYY-MM-DD HH:MM'' s"

section \<open>An exact instance of the library operations\<close>

text \<open>
  For running the model on examples: hours as exact rational numbers, rounding to one
  decimal with ties to even, and the timestamp printed with zero-padded fields.
\<close>

definition digit_char :: "nat \<Rightarrow> char" where
  "digit_char n = ''0123456789'' ! (n mod 10)"

definition pad2 :: "nat \<Rightarrow> string" where
  "pad2 n = [digit_char (n div 10), digit_char n]"

definition pad4 :: "nat \<Rightarrow> string" where
  "pad4 n = [digit_char (n div 1000), digit_char (n div 100), digit_char (n div 10), digit_char n]"

definition strftime_ymd_hm :: "datetime \<Rightarrow> string" where
  "strftime_ymd_hm t =
     (case t of (Y, m, d, H, M, S, us) \<Rightarrow>
        pad4 Y @ ''-'' @ pad2 m @ ''-'' @ pad2 d @ '' '' @ pad2 H @ '':'' @ pad2 M)"

definition days_before_year :: "nat \<Rightarrow> nat" where
  "days_before_year y = (y - 1) * 365 + (y - 1) div 4 - (y - 1) div 100 + (y - 1) div 400"

definition days_before_month :: "nat \<Rightarrow> nat \<Rightarrow> nat" where
  "days_before_month y m = sum_list (map (days_in_month y) [1..<m])"

definition seconds_of :: "datetime \<Rightarrow> rat" where
  "seconds_of t =
     (case t of (Y, m, d, H, M, S, us) \<Rightarrow>
        of_nat ((((days_before_year Y + days_before_month Y m + d) * 24 + H) * 60 + M) * 60 + S)
        + of_nat us / 1000000)"

definition exact_hours :: "datetime \<Rightarrow> datetime \<Rightarrow> rat" where
  "exact_hours a b = (seconds_of b - seconds_of a) / 3600"

definition round_half_even :: "rat \<Rightarrow> int" where
  "round_half_even x =
     (let f = \<lfloor>x\<rfloor>; r = x - of_int f
      in if r < 1 / 2 then f else if r > 1 / 2 then f + 1 else if even f then f else f + 1)"

definition exact_round1 :: "rat \<Rightarrow> rat" where
  "exact_round1 x = of_int (round_half_even (x * 10)) / 10"

definition exact_library :: "rat library" where
  "exact_library = \<lparr>strftime = strftime_ymd_hm, db_hours = exact_hours, py_hours = exact_hours,
     fadd = (+), fzero = 0, round1 = exact_round1\<rparr>"

section \<open>Example data\<close>

text \<open>
  Two active resources: the identifier of the second equals the token \<open>aula01\<close> up to
  case, and the description of the first contains it.
\<close>

definition precedence_db :: database where
  "precedence_db = \<lparr>resources_tbl =
      [\<lparr>reresourceid = ''LAB7'', redescri = ''Deposito aula01'', retype = ''A'',
        recodcal = ''CAL2'', flactive = 1\<rparr>,
       \<lparr>reresourceid = ''AULA01'', redescri = ''Aula Corsi'', retype = ''A'',
        recodcal = ''CAL1'', flactive = 1\<rparr>],
     resourcelist_tbl = [], tasks_tbl = [], calendar_tbl = []\<rparr>"

text \<open>
  The scenario of the specification: two rooms whose descriptions both contain
  \<open>aula corsi\<close>, and one reservation of the first from 09:00 to 10:00 on 2024-06-01.
  One confirmed task from 10:00 to 11:00 in the calendar \<open>CAL1\<close>.
\<close>

definition aula_db :: database where
  "aula_db = \<lparr>resources_tbl =
      [\<lparr>reresourceid = ''AULA01'', redescri = ''Aula Corsi'', retype = ''A'',
        recodcal = ''CAL1'', flactive = 1\<rparr>,
       \<lparr>reresourceid = ''AULA02'', redescri = ''Aula Corsi Grande'', retype = ''A'',
        recodcal = ''CAL1'', flactive = 1\<rparr>],
     resourcelist_tbl =
      [\<lparr>rlresourceid = Some ''AULA01'', rlprevbegin = (2024, 6, 1, 9, 0, 0, 0),
        rlprevend = (2024, 6, 1, 10, 0, 0, 0)\<rparr>],
     tasks_tbl =
      [\<lparr>tetitle = ''Lezione'', tetaskid = ''T1'', tecodcal = ''CAL1'', telocation = ''Pisa'',
        telisris = ''AULA01'', teprevbegin = (2024, 6, 1, 10, 0, 0, 0),
        teprevend = (2024, 6, 1, 11, 0, 0, 0), testato = ''C''\<rparr>],
     calendar_tbl = [\<lparr>cacodcal = ''CAL1'', cadescri = ''Aule''\<rparr>]\<rparr>"

definition aula_world :: "string \<Rightarrow> world" where
  "aula_world codes = \<lparr>CALENDAR_CODES = Some codes, db = Some aula_db\<rparr>"

definition aula01_row :: resource_row where
  "aula01_row = \<lparr>row_reresourceid = ''AULA01'', row_redescri = ''Aula Corsi'',
     row_retype = ''A'', row_recodcal = ''CAL1''\<rparr>"

definition aula02_row :: resource_row where
  "aula02_row = \<lparr>row_reresourceid = ''AULA02'', row_redescri = ''Aula Corsi Grande'',
     row_retype = ''A'', row_recodcal = ''CAL1''\<rparr>"

text \<open>The row of the task \<open>T1\<close> as the query returns it.\<close>

definition lezione_row :: "'f library \<Rightarrow> 'f booking_row" where
  "lezione_row L = \<lparr>evento = ''Lezione'', id_evento = ''T1'', cod_calendario = ''CAL1'',
     nome_calendario = ''Aule'', location = ''Pisa'', lista_risorse = ''AULA01'',
     inizio = (2024, 6, 1, 10, 0, 0, 0), fine = (2024, 6, 1, 11, 0, 0, 0),
     durata_ore = db_hours L (2024, 6, 1, 10, 0, 0, 0) (2024, 6, 1, 11, 0, 0, 0)\<rparr>"

text \<open>
  The type codes of the deployment of the scenario, and a world whose database cannot be
  reached.
\<close>

definition aula_types :: resource_types where
  "aula_types = \<lparr>ROOMS_TYPE = Some ''A'', VEHICLES_TYPE = Some ''V'', PROJECTORS_TYPE = None\<rparr>"

definition offline_world :: world where
  "offline_world = \<lparr>CALENDAR_CODES = Some ''CAL1,CAL2,CAL3'', db = None\<rparr>"

section \<open>Exact identifiers take precedence\<close>

lemma exact_id_rows_nonempty:
  assumes "r \<in> set (resources_tbl d)" and "flactive r = 1"
    and "UPPER (reresourceid r) = UPPER resource"
  shows "exact_id_rows d resource \<noteq> []"
proof -
  have "r \<in> set (filter (\<lambda>r. UPPER (reresourceid r) = UPPER resource \<and> flactive r = 1)
           (resources_tbl d))"
    using assms by simp
  then show ?thesis
    unfolding exact_id_rows_def by (metis empty_iff list.set(1) map_is_Nil_conv)
qed

lemma exact_id_rows_sound:
  assumes "x \<in> set (exact_id_rows d resource)"
  shows "\<exists>r \<in> set (resources_tbl d). x = select_row r \<and> flactive r = 1
           \<and> UPPER (reresourceid r) = UPPER resource"
  using assms unfolding exact_id_rows_def by auto

lemma UPPER_examples:
  "UPPER ''AULA01'' = ''AULA01''" "UPPER ''LAB7'' = ''LAB7''" "UPPER ''aula01'' = ''AULA01''"
  by (simp_all add: UPPER_def upper_char_def lower_letters_def upper_letters_def)

text \<open>
  Claim C6. If some active resource has an identifier equal to the token up to case, the
  resolution is \<open>Exact\<close> with exactly one resource, an active one whose identifier
  equals the token up to case, together with its calendar code; the only statement sent to the
  database is the identifier lookup, so the description search is never run. When the
  identifier is unique up to case among the active resources, the resource returned is that
  one.
\<close>

theorem exact_precedence:
  assumes "db w = Some d" and "r \<in> set (resources_tbl d)" and "flactive r = 1"
    and "UPPER (reresourceid r) = UPPER resource"
  shows "\<exists>r'. r' \<in> set (resources_tbl d) \<and> flactive r' = 1
            \<and> UPPER (reresourceid r') = UPPER resource
            \<and> resolve_resource_info w resource =
                ([Q_exact_id resource], Inr (Found Exact [select_row r'] (recodcal r')))
            \<and> ((\<forall>q \<in> set (resources_tbl d).
                   flactive q = 1 \<and> UPPER (reresourceid q) = UPPER resource \<longrightarrow> q = r)
                 \<longrightarrow> r' = r)"
proof -
  from assms(2-4) have "exact_id_rows d resource \<noteq> []"
    by (rule exact_id_rows_nonempty)
  then obtain x xs where xs: "exact_id_rows d resource = x # xs"
    by (cases "exact_id_rows d resource") auto
  then have "x \<in> set (exact_id_rows d resource)" by simp
  from exact_id_rows_sound [OF this] obtain r' where
    r': "r' \<in> set (resources_tbl d)" "x = select_row r'" "flactive r' = 1"
        "UPPER (reresourceid r') = UPPER resource"
    by blast
  have "resolve_resource_info w resource =
          ([Q_exact_id resource], Inr (Found Exact [select_row r'] (recodcal r')))"
    using assms(1) xs r'(2) by (simp add: resolve_resource_info_def select_row_def)
  with r' show ?thesis by blast
qed

theorem exact_precedence_witness:
  "resolve_resource_info \<lparr>CALENDAR_CODES = None, db = Some precedence_db\<rparr> ''aula01'' =
     ([Q_exact_id ''aula01''],
      Inr (Found Exact
        [\<lparr>row_reresourceid = ''AULA01'', row_redescri = ''Aula Corsi'', row_retype = ''A'',
          row_recodcal = ''CAL1''\<rparr>] ''CAL1''))"
  using exact_precedence [of "\<lparr>CALENDAR_CODES = None, db = Some precedence_db\<rparr>"
      precedence_db
      "\<lparr>reresourceid = ''AULA01'', redescri = ''Aula Corsi'', retype = ''A'',
        recodcal = ''CAL1'', flactive = 1\<rparr>"
      "''aula01''"]
  by (simp add: precedence_db_def UPPER_examples select_row_def)

section \<open>Availability of a resource\<close>

lemma resolve_found:
  assumes "resolve_resource_info w resource = (qs, Inr (Found ty rs cal))"
  shows "\<exists>d r0 rest. db w = Some d \<and> rs = r0 # rest \<and> cal = row_recodcal r0
           \<and> (ty = Exact \<longrightarrow> rest = [] \<and> qs = [Q_exact_id resource])
           \<and> (ty = Single \<longrightarrow> rest = [] \<and> qs = [Q_exact_id resource, Q_description resource])
           \<and> (ty = Multiple \<longrightarrow> rest \<noteq> [] \<and> qs = [Q_exact_id resource, Q_description resource])"
proof (cases "db w")
  case None
  with assms show ?thesis by (simp add: resolve_resource_info_def)
next
  case (Some d)
  show ?thesis
  proof (cases "exact_id_rows d resource")
    case (Cons x xs)
    with Some assms show ?thesis by (auto simp: resolve_resource_info_def)
  next
    case Nil
    show ?thesis
    proof (cases "like_tokens (LOWER (''%'' @ resource @ ''%''))")
      case None
      with Some Nil assms show ?thesis by (simp add: resolve_resource_info_def)
    next
      case (Some pat)
      show ?thesis
      proof (cases "description_rows d pat")
        case Nil': Nil
        with \<open>db w = Some d\<close> Nil Some assms show ?thesis
          by (simp add: resolve_resource_info_def)
      next
        case (Cons m ms)
        with \<open>db w = Some d\<close> Nil Some
        have "resolve_resource_info w resource =
                ([Q_exact_id resource, Q_description resource],
                 Inr (Found (if ms \<noteq> [] then Multiple else Single) (m # ms) (row_recodcal m)))"
          by (simp add: resolve_resource_info_def)
        with assms have "qs = [Q_exact_id resource, Q_description resource]"
          and "ty = (if ms \<noteq> [] then Multiple else Single)"
          and "rs = m # ms" and "cal = row_recodcal m"
          by simp_all
        with \<open>db w = Some d\<close> show ?thesis by (simp split: if_splits)
      qed
    qed
  qed
qed

lemma resolve_not_found:
  assumes "resolve_resource_info w resource = (qs, Inr Not_found)"
  shows "qs = [Q_exact_id resource, Q_description resource]"
  using assms unfolding resolve_resource_info_def
  by (auto split: option.splits list.splits if_splits)

lemma set_map_filter: "set (List.map_filter f xs) = {y. \<exists>x \<in> set xs. f x = Some y}"
  by (induction xs) (auto simp: map_filter_simps split: option.splits)

lemma map_of_group_conflicts:
  "map_of (group_conflicts d ids end_dt start_dt) i = None \<longleftrightarrow>
     i \<notin> set ids \<or> count_conflicts d i end_dt start_dt = 0"
proof -
  let ?sel = "filter (\<lambda>r. (case rlresourceid r of None \<Rightarrow> False | Some i \<Rightarrow> i \<in> set ids)
                          \<and> overlaps r end_dt start_dt) (resourcelist_tbl d)"
  have "map_of (group_conflicts d ids end_dt start_dt) i = None \<longleftrightarrow>
          i \<notin> set (List.map_filter rlresourceid ?sel)"
    unfolding group_conflicts_def Let_def
    by (simp add: map_of_eq_None_iff image_image)
  also have "\<dots> \<longleftrightarrow> \<not> (\<exists>r \<in> set (resourcelist_tbl d). rlresourceid r = Some i \<and> i \<in> set ids
                          \<and> overlaps r end_dt start_dt)"
    unfolding set_map_filter by auto
  also have "\<dots> \<longleftrightarrow> i \<notin> set ids \<or> count_conflicts d i end_dt start_dt = 0"
    unfolding count_conflicts_def by (auto simp: filter_empty_conv)
  finally show ?thesis .
qed


lemma not_overlaps_back_to_back:
  "rlprevend r = start_dt \<or> rlprevbegin r = end_dt \<Longrightarrow> \<not> overlaps r end_dt start_dt"
  by (auto simp: overlaps_def)

text \<open>
  Claim C7. When a token resolves to several resources, the report lists as free exactly the
  resolved identifiers without a conflicting reservation in the window and as busy exactly
  those with at least one. The two lists have no identifier in common, their lengths add up
  to the number of resolved resources, the reported totals are their lengths, and the flag
  \<open>almeno_una_libera\<close> holds iff the free list is not empty.
\<close>

theorem multiple_partition:
  assumes "strptime start_time = Inr start_dt" and "strptime end_time = Inr end_dt"
    and "resolve_resource_info w resource = (qs, Inr (Found Multiple rs cal))"
  shows "\<exists>d m. db w = Some d
     \<and> check_resource_availability w resource start_time end_time =
          (qs @ [Q_group_conflicts (map row_reresourceid rs) end_dt start_dt],
           Report_json (Multipla m))
     \<and> elenco_risorse m = map row_reresourceid rs
     \<and> risorse_libere m =
          filter (\<lambda>i. count_conflicts d i end_dt start_dt = 0) (map row_reresourceid rs)
     \<and> risorse_occupate m =
          filter (\<lambda>i. count_conflicts d i end_dt start_dt > 0) (map row_reresourceid rs)
     \<and> set (risorse_libere m) \<inter> set (risorse_occupate m) = {}
     \<and> length (risorse_libere m) + length (risorse_occupate m) = length rs
     \<and> risorse_trovate m = length rs
     \<and> totale_libere m = length (risorse_libere m)
     \<and> totale_occupate m = length (risorse_occupate m)
     \<and> (almeno_una_libera m \<longleftrightarrow> risorse_libere m \<noteq> [])"
proof -
  from resolve_found [OF assms(3)] obtain d r0 rest where
    d: "db w = Some d" and rs: "rs = r0 # rest"
    by blast
  define ids where "ids = map row_reresourceid rs"
  define busy_resources where "busy_resources = map_of (group_conflicts d ids end_dt start_dt)"
  define free where "free = filter (\<lambda>i. count_conflicts d i end_dt start_dt = 0) ids"
  define busy where "busy = filter (\<lambda>i. count_conflicts d i end_dt start_dt > 0) ids"
  define m where "m = \<lparr>m_ricerca_originale = resource, risorse_trovate = length rs,
              elenco_risorse = ids, almeno_una_libera = (length free > 0),
              risorse_libere = free, risorse_occupate = busy,
              totale_libere = length free, totale_occupate = length busy\<rparr>"
  have free_eq: "filter (\<lambda>i. busy_resources i = None) ids = free"
    unfolding free_def busy_resources_def
    by (rule filter_cong) (simp_all add: map_of_group_conflicts)
  have busy_eq: "filter (\<lambda>i. busy_resources i \<noteq> None) ids = busy"
    unfolding busy_def busy_resources_def
    by (rule filter_cong) (simp_all add: map_of_group_conflicts)
  have "ids \<noteq> []" using rs by (simp add: ids_def)
  then have resp: "availability_response resource d Multiple rs end_dt start_dt =
          ([Q_group_conflicts ids end_dt start_dt], Inr (Report_json (Multipla m)))"
    unfolding availability_response_def Let_def
    unfolding ids_def [symmetric] busy_resources_def [symmetric] free_eq busy_eq m_def
    by simp
  have call: "check_resource_availability w resource start_time end_time =
          (qs @ [Q_group_conflicts ids end_dt start_dt], Report_json (Multipla m))"
    unfolding check_resource_availability_def check_resource_availability_try_def catch_all_def
    using assms d resp by simp
  have len: "length free + length busy = length rs"
    using sum_length_filter_compl [of "\<lambda>i. count_conflicts d i end_dt start_dt = 0" ids]
    by (simp add: free_def busy_def ids_def)
  have disj: "set free \<inter> set busy = {}"
    by (auto simp: free_def busy_def)
  have sel: "elenco_risorse m = ids" "risorse_libere m = free" "risorse_occupate m = busy"
    "risorse_trovate m = length rs" "totale_libere m = length free"
    "totale_occupate m = length busy" "almeno_una_libera m \<longleftrightarrow> free \<noteq> []"
    by (simp_all add: m_def)
  show ?thesis
    apply (rule exI [of _ d], rule exI [of _ m])
    unfolding sel
    using d call len disj
    unfolding ids_def free_def busy_def
    by blast
qed

lemma strptime_raises_ValueError:
  "strptime s = Inl e \<Longrightarrow> is_ValueError e"
  unfolding strptime_def by (auto split: list.splits prod.splits if_splits)

lemma count_conflicts_back_to_back:
  assumes "rlprevend r = start_dt \<or> rlprevbegin r = end_dt"
  shows "count_conflicts (d\<lparr>resourcelist_tbl := xs @ r # ys\<rparr>) i end_dt start_dt =
         count_conflicts (d\<lparr>resourcelist_tbl := xs @ ys\<rparr>) i end_dt start_dt"
  unfolding count_conflicts_def using not_overlaps_back_to_back [OF assms] by simp

lemma group_conflicts_back_to_back:
  assumes "rlprevend r = start_dt \<or> rlprevbegin r = end_dt"
  shows "group_conflicts (d\<lparr>resourcelist_tbl := xs @ r # ys\<rparr>) ids end_dt start_dt =
         group_conflicts (d\<lparr>resourcelist_tbl := xs @ ys\<rparr>) ids end_dt start_dt"
  unfolding group_conflicts_def using not_overlaps_back_to_back [OF assms] by simp

lemma rows_ignore_resourcelist:
  "exact_id_rows (d\<lparr>resourcelist_tbl := xs\<rparr>) resource = exact_id_rows d resource"
  "description_rows (d\<lparr>resourcelist_tbl := xs\<rparr>) pat = description_rows d pat"
  by (simp_all add: exact_id_rows_def description_rows_def)

lemma resolve_ignores_resourcelist:
  "resolve_resource_info (w\<lparr>db := Some (d\<lparr>resourcelist_tbl := xs\<rparr>)\<rparr>) resource =
   resolve_resource_info (w\<lparr>db := Some (d\<lparr>resourcelist_tbl := ys\<rparr>)\<rparr>) resource"
  by (simp add: resolve_resource_info_def rows_ignore_resourcelist
      split: list.split option.split)

text \<open>
  Claim C5. A reservation that ends exactly when the window starts, or starts exactly when
  it ends, contributes nothing to the conflict count of any resource, to the grouped counts,
  or to the answer of the availability check: each is the same with and without it.
\<close>

theorem back_to_back_no_conflict:
  assumes "rlprevend r = start_dt \<or> rlprevbegin r = end_dt"
  shows "count_conflicts (d\<lparr>resourcelist_tbl := xs @ r # ys\<rparr>) i end_dt start_dt =
           count_conflicts (d\<lparr>resourcelist_tbl := xs @ ys\<rparr>) i end_dt start_dt
     \<and> group_conflicts (d\<lparr>resourcelist_tbl := xs @ r # ys\<rparr>) ids end_dt start_dt =
           group_conflicts (d\<lparr>resourcelist_tbl := xs @ ys\<rparr>) ids end_dt start_dt
     \<and> (strptime start_time = Inr start_dt \<and> strptime end_time = Inr end_dt \<longrightarrow>
          check_resource_availability (w\<lparr>db := Some (d\<lparr>resourcelist_tbl := xs @ r # ys\<rparr>)\<rparr>)
            resource start_time end_time =
          check_resource_availability (w\<lparr>db := Some (d\<lparr>resourcelist_tbl := xs @ ys\<rparr>)\<rparr>)
            resource start_time end_time)"
proof -
  note c = count_conflicts_back_to_back [OF assms] and g = group_conflicts_back_to_back [OF assms]
  have resp: "availability_response resource (d\<lparr>resourcelist_tbl := xs @ r # ys\<rparr>) ty rs end_dt start_dt =
              availability_response resource (d\<lparr>resourcelist_tbl := xs @ ys\<rparr>) ty rs end_dt start_dt"
    for ty rs
    unfolding availability_response_def c g ..
  have "check_resource_availability_try (w\<lparr>db := Some (d\<lparr>resourcelist_tbl := xs @ r # ys\<rparr>)\<rparr>)
            resource start_time end_time =
        check_resource_availability_try (w\<lparr>db := Some (d\<lparr>resourcelist_tbl := xs @ ys\<rparr>)\<rparr>)
            resource start_time end_time"
    if "strptime start_time = Inr start_dt" "strptime end_time = Inr end_dt"
    unfolding check_resource_availability_try_def
      resolve_ignores_resourcelist [where xs = "xs @ r # ys" and ys = "xs @ ys"]
    using that resp by simp
  then show ?thesis
    using c g by (simp add: check_resource_availability_def)
qed

section \<open>The active bookings of a period\<close>

lemma events_of_simps [simp]:
  "events_of [] = []"
  "events_of ((k, c) # kvs) = eventi c @ events_of kvs"
  "events_of (xs @ ys) = events_of xs @ events_of ys"
  by (simp_all add: events_of_def)

lemma map_fst_update_entry [simp]: "map fst (update_entry k f kvs) = map fst kvs"
  by (induction kvs) (auto simp: update_entry_def)

lemma update_entry_absent:
  "k \<notin> fst ` set kvs \<Longrightarrow> update_entry k f kvs = kvs"
  by (induction kvs) (auto simp: update_entry_def)

lemma events_update_entry:
  assumes "distinct (map fst kvs)" and "k \<in> fst ` set kvs"
    and "\<And>c. eventi (f c) = eventi c @ [e]"
  shows "mset (events_of (update_entry k f kvs)) = mset (events_of kvs) + {#e#}"
  using assms(1,2)
proof (induction kvs)
  case Nil
  then show ?case by simp
next
  case (Cons kv kvs)
  obtain k' c where kv: "kv = (k', c)" by (cases kv)
  show ?case
  proof (cases "k' = k")
    case True
    with Cons.prems kv have "k \<notin> fst ` set kvs" by auto
    then have "update_entry k f kvs = kvs" by (rule update_entry_absent)
    then have "update_entry k f (kv # kvs) = (k, f c) # kvs"
      using True kv by (simp add: update_entry_def)
    then show ?thesis using kv True assms(3) by simp
  next
    case False
    with Cons.prems kv have "k \<in> fst ` set kvs" and "distinct (map fst kvs)" by auto
    with Cons.IH have "mset (events_of (update_entry k f kvs)) = mset (events_of kvs) + {#e#}"
      by simp
    moreover have "update_entry k f (kv # kvs) = (k', c) # update_entry k f kvs"
      using False kv by (simp add: update_entry_def)
    ultimately show ?thesis using kv by simp
  qed
qed

lemma add_booking_step:
  assumes "distinct (map fst kvs)"
    and "add_booking L (kvs, n, t) b = (kvs', n', t')"
  shows "distinct (map fst kvs') \<and> n' = n + 1
     \<and> mset (events_of kvs') = mset (events_of kvs) + {#evento_info_of L b#}"
proof -
  define k where "k = cod_calendario b"
  define by_resource where "by_resource =
     (if k \<notin> fst ` set kvs
      then kvs @ [(k, \<lparr>c_nome_calendario = nome_calendario b, eventi = [], ore_totali = fzero L\<rparr>)]
      else kvs)"
  define f where "f = (\<lambda>c::'a calendario. c\<lparr>eventi := eventi c @ [evento_info_of L b],
                       ore_totali := fadd L (ore_totali c) (durata_ore b)\<rparr>)"
  have res: "kvs' = update_entry k f by_resource" "n' = n + 1"
    using assms(2) unfolding add_booking_def Let_def k_def by_resource_def f_def by simp_all
  have dist: "distinct (map fst by_resource)"
    using assms(1) by (auto simp: by_resource_def)
  have mem: "k \<in> fst ` set by_resource"
    by (auto simp: by_resource_def)
  have ev: "events_of by_resource = events_of kvs"
    by (simp add: by_resource_def)
  have "mset (events_of (update_entry k f by_resource)) =
          mset (events_of by_resource) + {#evento_info_of L b#}"
    by (rule events_update_entry [OF dist mem]) (simp add: f_def)
  with res dist ev show ?thesis by simp
qed

lemma foldl_add_booking:
  assumes "distinct (map fst kvs)"
    and "foldl (add_booking L) (kvs, n, t) bs = (kvs', n', t')"
  shows "distinct (map fst kvs') \<and> n' = n + length bs
     \<and> mset (events_of kvs') = mset (events_of kvs) + mset (map (evento_info_of L) bs)"
  using assms
proof (induction bs arbitrary: kvs n t)
  case Nil
  then show ?case by simp
next
  case (Cons b bs)
  obtain kvs1 n1 t1 where step: "add_booking L (kvs, n, t) b = (kvs1, n1, t1)"
    by (cases "add_booking L (kvs, n, t) b") auto
  from add_booking_step [OF Cons.prems(1) step]
  have s: "distinct (map fst kvs1)" "n1 = n + 1"
    "mset (events_of kvs1) = mset (events_of kvs) + {#evento_info_of L b#}"
    by simp_all
  from Cons.prems(2) step have "foldl (add_booking L) (kvs1, n1, t1) bs = (kvs', n', t')"
    by simp
  from Cons.IH [OF s(1) this] s show ?case by simp
qed

lemma build_report_events:
  "mset (report_events (build_report L start_time end_time start_dt end_dt results)) =
     mset (map (evento_info_of L) results)
   \<and> eventi_totali (build_report L start_time end_time start_dt end_dt results) = length results"
proof -
  obtain kvs n t where f: "foldl (add_booking L) ([], 0, fzero L) results = (kvs, n, t)"
    by (cases "foldl (add_booking L) ([], 0, fzero L) results") auto
  from foldl_add_booking [OF _ f]
  have r: "n = length results" "mset (events_of kvs) = mset (map (evento_info_of L) results)"
    by simp_all
  have "events_of (map (\<lambda>(k, c). (k, c\<lparr>ore_totali := round1 L (ore_totali c)\<rparr>)) kvs) = events_of kvs"
    by (induction kvs) auto
  then show ?thesis
    using f r by (simp add: build_report_def report_events_def events_of_def Let_def)
qed

lemma active_bookings_rows_mem:
  "b \<in> set (active_bookings_rows L d end_dt start_dt codes) \<longleftrightarrow>
     (\<exists>T1 \<in> set (tasks_tbl d). \<exists>T2 \<in> set (calendar_tbl d).
        b = booking_of L T1 T2 \<and> tecodcal T1 = cacodcal T2
        \<and> teprevbegin T1 \<le> end_dt \<and> teprevend T1 \<ge> start_dt \<and> testato T1 = ''C''
        \<and> cacodcal T2 \<in> set codes)"
  unfolding active_bookings_rows_def by auto

lemma get_active_bookings_report:
  assumes "strptime start_time = Inr start_dt" and "strptime end_time = Inr end_dt"
    and "get_calendar_codes w = Inr codes" and "length codes = 3" and "db w = Some d"
  shows "get_active_bookings L w start_time end_time =
           ([Q_active_bookings end_dt start_dt codes],
            Report_json (build_report L start_time end_time start_dt end_dt
              (active_bookings_rows L d end_dt start_dt codes)))"
  using assms
  by (simp add: get_active_bookings_def get_active_bookings_try_def catch_all_def
      execute_active_bookings_def)

lemma get_active_bookings_wrong_arity:
  assumes "strptime start_time = Inr start_dt" and "strptime end_time = Inr end_dt"
    and "get_calendar_codes w = Inr codes" and "length codes \<noteq> 3" and "db w = Some d"
  shows "get_active_bookings L w start_time end_time =
           ([], Error_json (Str (if length codes < 3 then IndexError_params else TypeError_params)))"
  using assms
  by (simp add: get_active_bookings_def get_active_bookings_try_def catch_all_def
      execute_active_bookings_def)

text \<open>
  Claim C1, as amended. When the window parses, the allow-list has three codes and the
  database is reachable, \<open>get_active_bookings\<close> returns a report whose events are
  the events of the fetched rows, each once, and a confirmed task of an allow-listed
  calendar is among the fetched rows iff its start is not after the end of the window and
  its end is not before the start of the window: the comparisons are inclusive
  (\<open>\<le>\<close> and \<open>\<ge>\<close>), unlike the strict ones of the availability check.
\<close>

theorem active_bookings_selection:
  assumes "strptime start_time = Inr start_dt" and "strptime end_time = Inr end_dt"
    and "get_calendar_codes w = Inr codes" and "length codes = 3" and "db w = Some d"
  shows "\<exists>rep. get_active_bookings L w start_time end_time =
           ([Q_active_bookings end_dt start_dt codes], Report_json rep)
     \<and> mset (report_events rep) =
         mset (map (evento_info_of L) (active_bookings_rows L d end_dt start_dt codes))
     \<and> (\<forall>T1 \<in> set (tasks_tbl d). \<forall>T2 \<in> set (calendar_tbl d).
          tecodcal T1 = cacodcal T2 \<and> testato T1 = ''C'' \<and> cacodcal T2 \<in> set codes \<longrightarrow>
          (booking_of L T1 T2 \<in> set (active_bookings_rows L d end_dt start_dt codes)
             \<longleftrightarrow> teprevbegin T1 \<le> end_dt \<and> teprevend T1 \<ge> start_dt))"
proof -
  let ?rows = "active_bookings_rows L d end_dt start_dt codes"
  let ?rep = "build_report L start_time end_time start_dt end_dt ?rows"
  have iff: "booking_of L T1 T2 \<in> set ?rows \<longleftrightarrow> teprevbegin T1 \<le> end_dt \<and> teprevend T1 \<ge> start_dt"
    if "T1 \<in> set (tasks_tbl d)" "T2 \<in> set (calendar_tbl d)"
      "tecodcal T1 = cacodcal T2 \<and> testato T1 = ''C'' \<and> cacodcal T2 \<in> set codes"
    for T1 T2
  proof
    assume "booking_of L T1 T2 \<in> set ?rows"
    then obtain T1' T2' where "booking_of L T1 T2 = booking_of L T1' T2'"
      "teprevbegin T1' \<le> end_dt" "teprevend T1' \<ge> start_dt"
      unfolding active_bookings_rows_mem by blast
    moreover from this(1) have "teprevbegin T1 = teprevbegin T1'" "teprevend T1 = teprevend T1'"
      by (simp_all add: booking_of_def)
    ultimately show "teprevbegin T1 \<le> end_dt \<and> teprevend T1 \<ge> start_dt" by simp
  next
    assume "teprevbegin T1 \<le> end_dt \<and> teprevend T1 \<ge> start_dt"
    with that show "booking_of L T1 T2 \<in> set ?rows"
      unfolding active_bookings_rows_mem by blast
  qed
  show ?thesis
    using get_active_bookings_report [OF assms, of L] build_report_events [of L] iff
    by (intro exI [of _ ?rep]) blast
qed

section \<open>The description search on tokens without wildcards\<close>

text \<open>
  For a token without \<open>%\<close>, \<open>_\<close> and backslash, the \<open>LIKE\<close> match of the
  code is the substring match of the specification, and the resolution returns the matching
  active resources in the order of their identifiers.
\<close>

lemma lower_char_special: "like_special (lower_char c) \<longleftrightarrow> like_special c"
proof -
  have "c \<in> set upper_letters \<or> lower_char c = c"
    unfolding lower_char_def
    by (auto split: option.splits dest: map_of_SomeD set_zip_leftD)
  moreover have "\<not> like_special (lower_char c) \<and> \<not> like_special c" if "c \<in> set upper_letters"
    using that unfolding like_special_def lower_char_def upper_letters_def lower_letters_def
    by auto
  ultimately show ?thesis by auto
qed

lemma like_tokens_plain:
  "\<forall>c \<in> set s. \<not> like_special c \<Longrightarrow> like_tokens (s @ ''%'') = Some (map Lit s @ [AnySeq])"
  by (induction s) (auto simp: like_special_def)

lemma like_match_prefix:
  "like_match (map Lit t @ [AnySeq]) s \<longleftrightarrow> take (length t) s = t"
proof (induction t arbitrary: s)
  case Nil
  show ?case by (induction s) simp_all
next
  case (Cons a t)
  then show ?case by (cases s) auto
qed

lemma like_match_substring:
  "like_match (AnySeq # map Lit t @ [AnySeq]) s \<longleftrightarrow> is_substring t s"
proof (induction s)
  case Nil
  show ?case using like_match_prefix [of t "[]"] by auto
next
  case (Cons x s)
  show ?case using Cons.IH like_match_prefix [of t "x # s"] by simp
qed

lemma description_pattern_plain:
  assumes "\<forall>c \<in> set resource. \<not> like_special c"
  shows "like_tokens (LOWER (''%'' @ resource @ ''%'')) =
           Some (AnySeq # map Lit (LOWER resource) @ [AnySeq])"
proof -
  have "\<forall>c \<in> set (LOWER resource). \<not> like_special c"
    using assms by (auto simp: LOWER_def lower_char_special)
  from like_tokens_plain [OF this]
  have "like_tokens (LOWER resource @ ''%'') = Some (map Lit (LOWER resource) @ [AnySeq])" .
  moreover have "LOWER (''%'' @ resource @ ''%'') = CHR ''%'' # LOWER resource @ ''%''"
    by (simp add: LOWER_def lower_char_def upper_letters_def lower_letters_def)
  ultimately show ?thesis by simp
qed

lemma description_rows_plain:
  assumes "\<forall>c \<in> set resource. \<not> like_special c"
    and "like_tokens (LOWER (''%'' @ resource @ ''%'')) = Some pat"
  shows "description_rows d pat =
     sort_key row_reresourceid
       (map select_row
         (filter (\<lambda>r. spec_description_match resource (redescri r) \<and> flactive r = 1)
            (resources_tbl d)))"
  using assms(2) unfolding description_pattern_plain [OF assms(1)] description_rows_def
  by (auto simp: like_match_substring spec_description_match_def simp del: like_match.simps)

lemma resolve_plain_token:
  assumes "\<forall>c \<in> set resource. \<not> like_special c" and "db w = Some d"
    and "exact_id_rows d resource = []"
  shows "resolve_resource_info w resource =
     (let matches = sort_key row_reresourceid
            (map select_row
              (filter (\<lambda>r. spec_description_match resource (redescri r) \<and> flactive r = 1)
                 (resources_tbl d)))
      in ([Q_exact_id resource, Q_description resource],
          Inr (case matches of [] \<Rightarrow> Not_found
               | m # ms \<Rightarrow> Found (if ms = [] then Single else Multiple) matches (row_recodcal m))))"
proof -
  note pat = description_pattern_plain [OF assms(1)]
  note rows = description_rows_plain [OF assms(1) pat, of d]
  show ?thesis
    unfolding resolve_resource_info_def pat
    using assms(2,3) by (simp add: rows Let_def split: list.split)
qed

subsection \<open>The scenario of the specification\<close>

lemmas strptime_eval = strptime_def strptime_matches_def re_Y_def re_m_def re_d_def re_H_def
  re_M_def re_lit_def two_chars_def one_char_def is_digit_def digit_val_def is_space_def
  days_in_month_def is_leap_def

lemmas resolve_eval = resolve_resource_info_def exact_id_rows_def description_rows_def
  select_row_def UPPER_def LOWER_def upper_char_def lower_char_def lower_letters_def
  upper_letters_def aula_db_def aula_world_def

lemma strptime_examples:
  "strptime ''2024-06-01 09:30'' = Inr (2024, 6, 1, 9, 30, 0, 0)"
  "strptime ''2024-06-01 10:30'' = Inr (2024, 6, 1, 10, 30, 0, 0)"
  "strptime ''2024-06-01 11:00'' = Inr (2024, 6, 1, 11, 0, 0, 0)"
  "strptime ''2024-06-01 12:00'' = Inr (2024, 6, 1, 12, 0, 0, 0)"
  "strptime ''2024-06-01 10:00'' = Inr (2024, 6, 1, 10, 0, 0, 0)"
  by (simp_all add: strptime_eval)

lemma resolve_aula_corsi:
  "resolve_resource_info (aula_world c) ''aula corsi'' =
     ([Q_exact_id ''aula corsi'', Q_description ''aula corsi''],
      Inr (Found Multiple [aula01_row, aula02_row] ''CAL1''))"
  by (simp add: resolve_eval aula01_row_def aula02_row_def)

lemma resolve_grande:
  "resolve_resource_info (aula_world c) ''grande'' =
     ([Q_exact_id ''grande'', Q_description ''grande''],
      Inr (Found Single [aula02_row] ''CAL1''))"
  by (simp add: resolve_eval aula02_row_def)

lemma resolve_aula01:
  "resolve_resource_info (aula_world c) ''aula01'' =
     ([Q_exact_id ''aula01''], Inr (Found Exact [aula01_row] ''CAL1''))"
  by (simp add: resolve_eval aula01_row_def)

lemma resolve_nope:
  "resolve_resource_info (aula_world c) ''NOPE'' =
     ([Q_exact_id ''NOPE'', Q_description ''NOPE''], Inr Not_found)"
  by (simp add: resolve_eval)

lemma resolve_underscore:
  "resolve_resource_info (aula_world c) ''A_la'' =
     ([Q_exact_id ''A_la'', Q_description ''A_la''],
      Inr (Found Multiple [aula01_row, aula02_row] ''CAL1''))"
  by (simp add: resolve_eval aula01_row_def aula02_row_def)

theorem multiple_partition_witness:
  "\<exists>m. check_resource_availability (aula_world '''') ''aula corsi''
          ''2024-06-01 09:30'' ''2024-06-01 10:30'' =
        ([Q_exact_id ''aula corsi'', Q_description ''aula corsi'',
          Q_group_conflicts [''AULA01'', ''AULA02''] (2024, 6, 1, 10, 30, 0, 0)
            (2024, 6, 1, 9, 30, 0, 0)], Report_json (Multipla m))
      \<and> risorse_libere m = [''AULA02''] \<and> risorse_occupate m = [''AULA01'']
      \<and> totale_libere m = 1 \<and> totale_occupate m = 1 \<and> risorse_trovate m = 2
      \<and> almeno_una_libera m"
proof -
  from multiple_partition [OF strptime_examples(1) strptime_examples(2) resolve_aula_corsi [of "''''"]]
  obtain d m where d: "db (aula_world '''') = Some d"
    and call: "check_resource_availability (aula_world '''') ''aula corsi''
          ''2024-06-01 09:30'' ''2024-06-01 10:30'' =
        ([Q_exact_id ''aula corsi'', Q_description ''aula corsi''] @
         [Q_group_conflicts (map row_reresourceid [aula01_row, aula02_row])
            (2024, 6, 1, 10, 30, 0, 0) (2024, 6, 1, 9, 30, 0, 0)], Report_json (Multipla m))"
    and free: "risorse_libere m =
          filter (\<lambda>i. count_conflicts d i (2024, 6, 1, 10, 30, 0, 0) (2024, 6, 1, 9, 30, 0, 0) = 0)
            (map row_reresourceid [aula01_row, aula02_row])"
    and busy: "risorse_occupate m =
          filter (\<lambda>i. count_conflicts d i (2024, 6, 1, 10, 30, 0, 0) (2024, 6, 1, 9, 30, 0, 0) > 0)
            (map row_reresourceid [aula01_row, aula02_row])"
    and rest: "risorse_trovate m = length [aula01_row, aula02_row]"
      "totale_libere m = length (risorse_libere m)"
      "totale_occupate m = length (risorse_occupate m)"
      "almeno_una_libera m \<longleftrightarrow> risorse_libere m \<noteq> []"
    by blast
  from d have "d = aula_db" by (simp add: aula_world_def)
  with free busy have fb: "risorse_libere m = [''AULA02'']" "risorse_occupate m = [''AULA01'']"
    by (simp_all add: count_conflicts_def overlaps_def aula_db_def aula01_row_def aula02_row_def)
  with call rest show ?thesis
    by (intro exI [of _ m]) (simp add: aula01_row_def aula02_row_def)
qed

lemma strptime_malformed:
  "strptime ''2024-06-01T09:30'' = Inl (ValueError_no_match ''2024-06-01T09:30'')"
  by (simp add: strptime_eval)

theorem single_kind_counterexample:
  "snd (resolve_resource_info (aula_world '''') ''grande'') = Inr (Found Single [aula02_row] ''CAL1'')
   \<and> snd (check_resource_availability (aula_world '''') ''grande''
            ''2024-06-01 09:30'' ''2024-06-01 10:30'') =
       Report_json (Multipla
         \<lparr>m_ricerca_originale = ''grande'', risorse_trovate = 1, elenco_risorse = [''AULA02''],
          almeno_una_libera = True, risorse_libere = [''AULA02''], risorse_occupate = [],
          totale_libere = 1, totale_occupate = 0\<rparr>)"
proof -
  have d: "db (aula_world '''') = Some aula_db"
    by (simp add: aula_world_def)
  have a: "availability_response ''grande'' aula_db Single [aula02_row]
             (2024, 6, 1, 10, 30, 0, 0) (2024, 6, 1, 9, 30, 0, 0) =
           ([Q_group_conflicts [''AULA02''] (2024, 6, 1, 10, 30, 0, 0) (2024, 6, 1, 9, 30, 0, 0)],
            Inr (Report_json (Multipla
              \<lparr>m_ricerca_originale = ''grande'', risorse_trovate = 1,
               elenco_risorse = [''AULA02''], almeno_una_libera = True,
               risorse_libere = [''AULA02''], risorse_occupate = [],
               totale_libere = 1, totale_occupate = 0\<rparr>)))"
    unfolding availability_response_def
    by (simp add: Let_def aula02_row_def group_conflicts_def overlaps_def List.map_filter_def
        aula_db_def)
  show ?thesis
    by (simp add: resolve_grande strptime_examples check_resource_availability_def
        check_resource_availability_try_def catch_all_def d a del: One_nat_def)
qed

theorem back_to_back_no_conflict_witness:
  "count_conflicts aula_db ''AULA01'' (2024, 6, 1, 10, 30, 0, 0) (2024, 6, 1, 10, 0, 0, 0) = 0"
  using back_to_back_no_conflict [where
      r = "\<lparr>rlresourceid = Some ''AULA01'', rlprevbegin = (2024, 6, 1, 9, 0, 0, 0),
        rlprevend = (2024, 6, 1, 10, 0, 0, 0)\<rparr>"
      and start_dt = "(2024, 6, 1, 10, 0, 0, 0)" and end_dt = "(2024, 6, 1, 10, 30, 0, 0)"
      and d = aula_db and xs = "[]" and ys = "[]" and i = "''AULA01''"]
  by (simp add: aula_db_def count_conflicts_def)

lemma calendar_codes_examples:
  "get_calendar_codes (aula_world ''CAL1, CAL2,CAL3'') = Inr [''CAL1'', ''CAL2'', ''CAL3'']"
  "get_calendar_codes (aula_world ''CAL1, CAL2'') = Inr [''CAL1'', ''CAL2'']"
  by (simp_all add: get_calendar_codes_def aula_world_def strip_def is_space_def)

lemma db_aula_world: "db (aula_world c) = Some aula_db"
  by (simp add: aula_world_def)

lemma rows_back_to_back:
  "active_bookings_rows L aula_db (2024, 6, 1, 12, 0, 0, 0) (2024, 6, 1, 11, 0, 0, 0)
     [''CAL1'', ''CAL2'', ''CAL3''] = [lezione_row L]"
  by (simp add: active_bookings_rows_def aula_db_def booking_of_def lezione_row_def)

lemma events_back_to_back:
  "map e_id_evento (json_events (snd (get_active_bookings L (aula_world ''CAL1, CAL2,CAL3'')
      ''2024-06-01 11:00'' ''2024-06-01 12:00''))) = [''T1'']"
proof -
  let ?rep = "build_report L ''2024-06-01 11:00'' ''2024-06-01 12:00''
     (2024, 6, 1, 11, 0, 0, 0) (2024, 6, 1, 12, 0, 0, 0) [lezione_row L]"
  have "get_active_bookings L (aula_world ''CAL1, CAL2,CAL3'') ''2024-06-01 11:00''
          ''2024-06-01 12:00'' =
        ([Q_active_bookings (2024, 6, 1, 12, 0, 0, 0) (2024, 6, 1, 11, 0, 0, 0)
            [''CAL1'', ''CAL2'', ''CAL3'']], Report_json ?rep)"
    using get_active_bookings_report [OF strptime_examples(3) strptime_examples(4)
        calendar_codes_examples(1) _ db_aula_world, of L]
    unfolding rows_back_to_back by simp
  moreover have "mset (report_events ?rep) = {#evento_info_of L (lezione_row L)#}"
    using build_report_events [of L _ _ _ _ "[lezione_row L]"] by simp
  then have "report_events ?rep = [evento_info_of L (lezione_row L)]"
    by simp
  ultimately show ?thesis
    by (simp add: evento_info_of_def lezione_row_def)
qed

theorem inclusive_overlap_counterexample:
  "map e_id_evento (json_events (snd (get_active_bookings exact_library
      (aula_world ''CAL1, CAL2,CAL3'') ''2024-06-01 11:00'' ''2024-06-01 12:00''))) = [''T1'']
   \<and> map (\<lambda>t. (tetaskid t, testato t, tecodcal t, teprevbegin t, teprevend t)) (tasks_tbl aula_db) =
       [(''T1'', ''C'', ''CAL1'', (2024, 6, 1, 10, 0, 0, 0), (2024, 6, 1, 11, 0, 0, 0))]
   \<and> \<not> ((2024, 6, 1, 10, 0, 0, 0) < ((2024, 6, 1, 12, 0, 0, 0) :: datetime)
        \<and> (2024, 6, 1, 11, 0, 0, 0) > ((2024, 6, 1, 11, 0, 0, 0) :: datetime))"
  using events_back_to_back [of exact_library] by (simp add: aula_db_def)

theorem active_bookings_selection_witness:
  "\<exists>rep. get_active_bookings exact_library (aula_world ''CAL1, CAL2,CAL3'')
       ''2024-06-01 11:00'' ''2024-06-01 12:00'' =
     ([Q_active_bookings (2024, 6, 1, 12, 0, 0, 0) (2024, 6, 1, 11, 0, 0, 0)
         [''CAL1'', ''CAL2'', ''CAL3'']], Report_json rep)
   \<and> mset (report_events rep) = {#evento_info_of exact_library (lezione_row exact_library)#}"
  using active_bookings_selection [OF strptime_examples(3) strptime_examples(4)
      calendar_codes_examples(1) _ db_aula_world, of exact_library]
  unfolding rows_back_to_back by simp blast

text \<open>
  Claim C3. The statement of \<open>get_active_bookings\<close> has exactly three placeholders for
  calendar codes. With the allow-list \<open>CAL1, CAL2\<close> the driver cannot fill them: the call
  returns the error object of the \<open>IndexError\<close> and sends nothing, although the
  confirmed task \<open>T1\<close> of the allow-listed calendar \<open>CAL1\<close> lies in the window.
\<close>

theorem three_placeholders_failure:
  "get_active_bookings exact_library (aula_world ''CAL1, CAL2'')
       ''2024-06-01 10:00'' ''2024-06-01 12:00'' = ([], Error_json (Str IndexError_params))
   \<and> map (\<lambda>t. (tetaskid t, testato t, tecodcal t, teprevbegin t, teprevend t)) (tasks_tbl aula_db) =
       [(''T1'', ''C'', ''CAL1'', (2024, 6, 1, 10, 0, 0, 0), (2024, 6, 1, 11, 0, 0, 0))]"
  using get_active_bookings_wrong_arity [OF strptime_examples(5) strptime_examples(4)
      calendar_codes_examples(2) _ db_aula_world, of exact_library]
  by (simp add: aula_db_def)

text \<open>
  Claim C4. The token is placed in the \<open>LIKE\<close> pattern as it is, so its underscore
  matches any character: the token \<open>A_la\<close> resolves to both rooms, although neither
  description contains it as a substring, whatever the case of the letters.
\<close>

theorem like_wildcard_failure:
  "resolve_resource_info (aula_world c) ''A_la'' =
     ([Q_exact_id ''A_la'', Q_description ''A_la''],
      Inr (Found Multiple [aula01_row, aula02_row] ''CAL1''))
   \<and> \<not> spec_description_match ''A_la'' ''Aula Corsi''
   \<and> \<not> spec_description_match ''A_la'' ''Aula Corsi Grande''"
  by (simp add: resolve_underscore spec_description_match_def LOWER_def lower_char_def
      lower_letters_def upper_letters_def)

section \<open>The report for one resolved resource\<close>

text \<open>
  Claim C2, as amended. When the window parses and the token resolves to one resource
  \<open>r0\<close>, the answer depends on the kind of the resolution. Kind \<open>exact\<close>: after the
  lookups of the resolution the call sends the conflict count for \<open>r0\<close> and returns the
  single-resource report with the token, the identifier and the description of \<open>r0\<close>, the
  availability flag, true iff the conflict count is 0, and the conflict count. Kind
  \<open>single\<close>: the call sends the grouped conflict query for the one identifier and returns
  the multiple-resource report: one resource found, the list of that identifier, the flag
  \<open>almeno_una_libera\<close> true iff the conflict count of \<open>r0\<close> is 0, the identifier in
  the free list when the count is 0 and in the busy list otherwise, and the two totals
  accordingly; this report carries neither the description nor the conflict count.
\<close>

theorem exact_and_single_report:
  assumes "strptime start_time = Inr start_dt" and "strptime end_time = Inr end_dt"
    and "resolve_resource_info w resource = (qs, Inr (Found ty rs cal))"
  shows "\<exists>d r0. db w = Some d \<and> (ty \<noteq> Multiple \<longrightarrow> rs = [r0])
     \<and> (ty = Exact \<longrightarrow>
          check_resource_availability w resource start_time end_time =
            (qs @ [Q_count_conflicts (row_reresourceid r0) end_dt start_dt],
             Report_json (Specifica
               \<lparr>s_ricerca_originale = resource, s_id = row_reresourceid r0,
                s_descrizione = row_redescri r0,
                disponibile = (count_conflicts d (row_reresourceid r0) end_dt start_dt = 0),
                conflitti = count_conflicts d (row_reresourceid r0) end_dt start_dt\<rparr>)))
     \<and> (ty = Single \<longrightarrow>
          check_resource_availability w resource start_time end_time =
            (qs @ [Q_group_conflicts [row_reresourceid r0] end_dt start_dt],
             Report_json (Multipla
               \<lparr>m_ricerca_originale = resource, risorse_trovate = 1,
                elenco_risorse = [row_reresourceid r0],
                almeno_una_libera = (count_conflicts d (row_reresourceid r0) end_dt start_dt = 0),
                risorse_libere =
                  (if count_conflicts d (row_reresourceid r0) end_dt start_dt = 0
                   then [row_reresourceid r0] else []),
                risorse_occupate =
                  (if count_conflicts d (row_reresourceid r0) end_dt start_dt = 0
                   then [] else [row_reresourceid r0]),
                totale_libere =
                  (if count_conflicts d (row_reresourceid r0) end_dt start_dt = 0 then 1 else 0),
                totale_occupate =
                  (if count_conflicts d (row_reresourceid r0) end_dt start_dt = 0 then 0 else 1)\<rparr>)))"
proof -
  from resolve_found [OF assms(3)] obtain d r0 rest where
    d: "db w = Some d" and rs: "rs = r0 # rest"
    and ex: "ty = Exact \<longrightarrow> rest = []" and si: "ty = Single \<longrightarrow> rest = []"
    by blast
  define n where "n = count_conflicts d (row_reresourceid r0) end_dt start_dt"
  have one: "ty \<noteq> Multiple \<longrightarrow> rs = [r0]"
    using rs ex si by (cases ty) auto
  have exact: "ty = Exact \<longrightarrow>
          check_resource_availability w resource start_time end_time =
            (qs @ [Q_count_conflicts (row_reresourceid r0) end_dt start_dt],
             Report_json (Specifica
               \<lparr>s_ricerca_originale = resource, s_id = row_reresourceid r0,
                s_descrizione = row_redescri r0, disponibile = (n = 0), conflitti = n\<rparr>))"
    using assms d rs unfolding n_def
    by (simp add: check_resource_availability_def check_resource_availability_try_def
        catch_all_def availability_response_def Let_def)
  have busy: "map_of (group_conflicts d [row_reresourceid r0] end_dt start_dt) (row_reresourceid r0) = None
                \<longleftrightarrow> n = 0"
    unfolding n_def by (simp add: map_of_group_conflicts)
  have resp: "availability_response resource d Single [r0] end_dt start_dt =
           ([Q_group_conflicts [row_reresourceid r0] end_dt start_dt],
            Inr (Report_json (Multipla
               \<lparr>m_ricerca_originale = resource, risorse_trovate = 1,
                elenco_risorse = [row_reresourceid r0],
                almeno_una_libera = (n = 0),
                risorse_libere = (if n = 0 then [row_reresourceid r0] else []),
                risorse_occupate = (if n = 0 then [] else [row_reresourceid r0]),
                totale_libere = (if n = 0 then 1 else 0),
                totale_occupate = (if n = 0 then 0 else 1)\<rparr>)))"
    unfolding availability_response_def Let_def using busy by auto
  have single: "ty = Single \<longrightarrow>
          check_resource_availability w resource start_time end_time =
            (qs @ [Q_group_conflicts [row_reresourceid r0] end_dt start_dt],
             Report_json (Multipla
               \<lparr>m_ricerca_originale = resource, risorse_trovate = 1,
                elenco_risorse = [row_reresourceid r0],
                almeno_una_libera = (n = 0),
                risorse_libere = (if n = 0 then [row_reresourceid r0] else []),
                risorse_occupate = (if n = 0 then [] else [row_reresourceid r0]),
                totale_libere = (if n = 0 then 1 else 0),
                totale_occupate = (if n = 0 then 0 else 1)\<rparr>))"
    using assms d rs si resp
    by (simp add: check_resource_availability_def check_resource_availability_try_def
        catch_all_def)
  from d one exact single show ?thesis unfolding n_def by blast
qed

theorem exact_and_single_report_witness:
  "check_resource_availability (aula_world '''') ''aula01''
       ''2024-06-01 09:30'' ''2024-06-01 10:30'' =
     ([Q_exact_id ''aula01'',
       Q_count_conflicts ''AULA01'' (2024, 6, 1, 10, 30, 0, 0) (2024, 6, 1, 9, 30, 0, 0)],
      Report_json (Specifica
        \<lparr>s_ricerca_originale = ''aula01'', s_id = ''AULA01'', s_descrizione = ''Aula Corsi'',
         disponibile = False, conflitti = 1\<rparr>))
   \<and> check_resource_availability (aula_world '''') ''grande''
       ''2024-06-01 09:30'' ''2024-06-01 10:30'' =
     ([Q_exact_id ''grande'', Q_description ''grande'',
       Q_group_conflicts [''AULA02''] (2024, 6, 1, 10, 30, 0, 0) (2024, 6, 1, 9, 30, 0, 0)],
      Report_json (Multipla
        \<lparr>m_ricerca_originale = ''grande'', risorse_trovate = 1, elenco_risorse = [''AULA02''],
         almeno_una_libera = True, risorse_libere = [''AULA02''], risorse_occupate = [],
         totale_libere = 1, totale_occupate = 0\<rparr>))"
proof -
  have c1: "count_conflicts aula_db ''AULA01'' (2024, 6, 1, 10, 30, 0, 0)
              (2024, 6, 1, 9, 30, 0, 0) = 1"
    and c2: "count_conflicts aula_db ''AULA02'' (2024, 6, 1, 10, 30, 0, 0)
              (2024, 6, 1, 9, 30, 0, 0) = 0"
    by (simp_all add: count_conflicts_def overlaps_def aula_db_def)
  from exact_and_single_report [OF strptime_examples(1) strptime_examples(2)
      resolve_aula01 [of "''''"]]
  obtain d r0 where "db (aula_world '''') = Some d" and "[aula01_row] = [r0]"
    and "check_resource_availability (aula_world '''') ''aula01''
         ''2024-06-01 09:30'' ''2024-06-01 10:30'' =
       ([Q_exact_id ''aula01''] @
        [Q_count_conflicts (row_reresourceid r0) (2024, 6, 1, 10, 30, 0, 0)
           (2024, 6, 1, 9, 30, 0, 0)],
        Report_json (Specifica
          \<lparr>s_ricerca_originale = ''aula01'', s_id = row_reresourceid r0,
           s_descrizione = row_redescri r0,
           disponibile = (count_conflicts d (row_reresourceid r0) (2024, 6, 1, 10, 30, 0, 0)
              (2024, 6, 1, 9, 30, 0, 0) = 0),
           conflitti = count_conflicts d (row_reresourceid r0) (2024, 6, 1, 10, 30, 0, 0)
              (2024, 6, 1, 9, 30, 0, 0)\<rparr>))"
    by auto
  then have exact: "check_resource_availability (aula_world '''') ''aula01''
       ''2024-06-01 09:30'' ''2024-06-01 10:30'' =
     ([Q_exact_id ''aula01'',
       Q_count_conflicts ''AULA01'' (2024, 6, 1, 10, 30, 0, 0) (2024, 6, 1, 9, 30, 0, 0)],
      Report_json (Specifica
        \<lparr>s_ricerca_originale = ''aula01'', s_id = ''AULA01'', s_descrizione = ''Aula Corsi'',
         disponibile = False, conflitti = 1\<rparr>))"
    using c1 by (auto simp add: db_aula_world aula01_row_def simp del: One_nat_def)
  from exact_and_single_report [OF strptime_examples(1) strptime_examples(2)
      resolve_grande [of "''''"]]
  obtain d r0 where "db (aula_world '''') = Some d" and "[aula02_row] = [r0]"
    and "check_resource_availability (aula_world '''') ''grande''
         ''2024-06-01 09:30'' ''2024-06-01 10:30'' =
       ([Q_exact_id ''grande'', Q_description ''grande''] @
        [Q_group_conflicts [row_reresourceid r0] (2024, 6, 1, 10, 30, 0, 0)
           (2024, 6, 1, 9, 30, 0, 0)],
        Report_json (Multipla
          \<lparr>m_ricerca_originale = ''grande'', risorse_trovate = 1,
           elenco_risorse = [row_reresourceid r0],
           almeno_una_libera = (count_conflicts d (row_reresourceid r0)
              (2024, 6, 1, 10, 30, 0, 0) (2024, 6, 1, 9, 30, 0, 0) = 0),
           risorse_libere = (if count_conflicts d (row_reresourceid r0)
              (2024, 6, 1, 10, 30, 0, 0) (2024, 6, 1, 9, 30, 0, 0) = 0
              then [row_reresourceid r0] else []),
           risorse_occupate = (if count_conflicts d (row_reresourceid r0)
              (2024, 6, 1, 10, 30, 0, 0) (2024, 6, 1, 9, 30, 0, 0) = 0
              then [] else [row_reresourceid r0]),
           totale_libere = (if count_conflicts d (row_reresourceid r0)
              (2024, 6, 1, 10, 30, 0, 0) (2024, 6, 1, 9, 30, 0, 0) = 0 then 1 else 0),
           totale_occupate = (if count_conflicts d (row_reresourceid r0)
              (2024, 6, 1, 10, 30, 0, 0) (2024, 6, 1, 9, 30, 0, 0) = 0 then 0 else 1)\<rparr>))"
    by auto
  then have single: "check_resource_availability (aula_world '''') ''grande''
       ''2024-06-01 09:30'' ''2024-06-01 10:30'' =
     ([Q_exact_id ''grande'', Q_description ''grande'',
       Q_group_conflicts [''AULA02''] (2024, 6, 1, 10, 30, 0, 0) (2024, 6, 1, 9, 30, 0, 0)],
      Report_json (Multipla
        \<lparr>m_ricerca_originale = ''grande'', risorse_trovate = 1, elenco_risorse = [''AULA02''],
         almeno_una_libera = True, risorse_libere = [''AULA02''], risorse_occupate = [],
         totale_libere = 1, totale_occupate = 0\<rparr>))"
    using c2 by (auto simp add: db_aula_world aula02_row_def simp del: One_nat_def)
  from exact single show ?thesis by (rule conjI)
qed

section \<open>A token that resolves to nothing\<close>

text \<open>
  Claim C8, as amended. For a token that \<open>resolve_resource_info\<close> does not find, and
  for every pair of window strings, \<open>check_resource_availability\<close> returns an error
  object and sends no conflict query. The window is parsed before the token is resolved:
  when both strings parse, the statements sent are the two lookups of the resolution and
  the error text is \<open>Risorsa '<token>' non trovata\<close>, with the token as it was given;
  when a window string does not parse, nothing is sent and the error text is the message
  of the parse failure, which does not name the token.
\<close>

theorem not_found_error:
  assumes "snd (resolve_resource_info w resource) = Inr Not_found"
  shows "\<not> is_report (snd (check_resource_availability w resource start_time end_time))
     \<and> filter is_conflict_query
          (fst (check_resource_availability w resource start_time end_time)) = []
     \<and> (strptime start_time = Inr start_dt \<and> strptime end_time = Inr end_dt \<longrightarrow>
          check_resource_availability w resource start_time end_time =
            ([Q_exact_id resource, Q_description resource],
             Error_json (Text (''Risorsa '' @ [CHR 0x27] @ resource @ [CHR 0x27]
                                @ '' non trovata''))))
     \<and> (strptime start_time = Inl x
          \<or> strptime start_time = Inr start_dt \<and> strptime end_time = Inl x \<longrightarrow>
          check_resource_availability w resource start_time end_time =
            ([], Error_json (Str x)))"
proof -
  obtain qs where r: "resolve_resource_info w resource = (qs, Inr Not_found)"
    using assms by (cases "resolve_resource_info w resource") auto
  from resolve_not_found [OF r] have qs: "qs = [Q_exact_id resource, Q_description resource]" .
  show ?thesis
    using r qs
    by (cases "strptime start_time"; cases "strptime end_time")
      (simp_all add: check_resource_availability_def check_resource_availability_try_def
        catch_all_def not_found_message_def)
qed

theorem not_found_error_witness:
  "check_resource_availability (aula_world '''') ''NOPE'' ''2024-06-01 09:30'' ''2024-06-01 10:30'' =
     ([Q_exact_id ''NOPE'', Q_description ''NOPE''],
      Error_json (Text (''Risorsa '' @ [CHR 0x27] @ ''NOPE'' @ [CHR 0x27] @ '' non trovata'')))"
  using not_found_error [where w = "aula_world ''''" and resource = "''NOPE''"
      and start_time = "''2024-06-01 09:30''" and start_dt = "(2024, 6, 1, 9, 30, 0, 0)"
      and end_time = "''2024-06-01 10:30''" and end_dt = "(2024, 6, 1, 10, 30, 0, 0)"]
  by (simp add: resolve_nope strptime_examples del: One_nat_def)

theorem not_found_bad_window_counterexample:
  "snd (resolve_resource_info (aula_world '''') ''NOPE'') = Inr Not_found
   \<and> check_resource_availability (aula_world '''') ''NOPE''
       ''2024-06-01T09:30'' ''2024-06-01 10:30'' =
     ([], Error_json (Str (ValueError_no_match ''2024-06-01T09:30'')))"
  by (simp add: resolve_nope strptime_malformed check_resource_availability_def
      check_resource_availability_try_def catch_all_def)

section \<open>Failures come back as answers\<close>

lemma get_active_bookings_is_report:
  "is_report (snd (get_active_bookings L w start_time end_time)) \<longleftrightarrow>
     (\<exists>start_dt end_dt codes d. strptime start_time = Inr start_dt
        \<and> strptime end_time = Inr end_dt \<and> get_calendar_codes w = Inr codes
        \<and> length codes = 3 \<and> db w = Some d)"
  by (auto simp: get_active_bookings_def get_active_bookings_try_def catch_all_def
      execute_active_bookings_def split: sum.splits option.splits if_splits)

lemma get_active_bookings_error:
  "\<not> is_report (snd (get_active_bookings L w start_time end_time)) \<Longrightarrow>
     \<exists>e. snd (get_active_bookings L w start_time end_time) = Error_json (Str e)"
  by (auto simp: get_active_bookings_def get_active_bookings_try_def catch_all_def
      execute_active_bookings_def split: sum.splits option.splits if_splits)

lemma find_free_resources_is_report:
  "is_report (snd (find_free_resources L T w start_time end_time)) \<longleftrightarrow>
     (\<exists>start_dt end_dt d. strptime start_time = Inr start_dt
        \<and> strptime end_time = Inr end_dt \<and> db w = Some d)"
  by (auto simp: find_free_resources_def find_free_resources_try_def catch_all_def
      split: sum.splits option.splits prod.splits)

lemma find_free_resources_error:
  "\<not> is_report (snd (find_free_resources L T w start_time end_time)) \<Longrightarrow>
     \<exists>e. snd (find_free_resources L T w start_time end_time) = Error_json (Str e)"
  by (auto simp: find_free_resources_def find_free_resources_try_def catch_all_def
      split: sum.splits option.splits prod.splits)

lemma list_available_resources_is_report:
  "is_report (snd (list_available_resources w)) \<longleftrightarrow> (\<exists>d. db w = Some d)"
  by (auto simp: list_available_resources_def list_available_resources_try_def catch_all_def
      Let_def split: option.splits)

lemma list_available_resources_error:
  "\<not> is_report (snd (list_available_resources w)) \<Longrightarrow>
     list_available_resources w = ([], Error_json (Str OperationalError))"
  by (auto simp: list_available_resources_def list_available_resources_try_def catch_all_def
      Let_def split: option.splits)

lemma availability_response_report:
  "\<exists>qs rep. availability_response resource d ty (r0 # rest) end_dt start_dt =
     (qs, Inr (Report_json rep))"
  by (simp add: availability_response_def Let_def)

lemma check_resource_availability_found:
  assumes "strptime start_time = Inr start_dt" and "strptime end_time = Inr end_dt"
    and "resolve_resource_info w resource = (qs, Inr (Found ty rs cal))"
  shows "is_report (snd (check_resource_availability w resource start_time end_time))"
proof -
  from resolve_found [OF assms(3)] obtain d r0 rest where d: "db w = Some d" "rs = r0 # rest"
    by blast
  obtain qs' rep where "availability_response resource d ty (r0 # rest) end_dt start_dt =
     (qs', Inr (Report_json rep))"
    using availability_response_report by blast
  then show ?thesis
    using assms d
    by (simp add: check_resource_availability_def check_resource_availability_try_def
        catch_all_def)
qed

lemma check_resource_availability_is_report:
  "is_report (snd (check_resource_availability w resource start_time end_time)) \<longleftrightarrow>
     (\<exists>start_dt end_dt qs ty rs cal. strptime start_time = Inr start_dt
        \<and> strptime end_time = Inr end_dt
        \<and> resolve_resource_info w resource = (qs, Inr (Found ty rs cal)))"
proof
  assume rep: "is_report (snd (check_resource_availability w resource start_time end_time))"
  obtain qs r where res: "resolve_resource_info w resource = (qs, r)"
    by (cases "resolve_resource_info w resource") auto
  from rep res show "\<exists>start_dt end_dt qs ty rs cal. strptime start_time = Inr start_dt
        \<and> strptime end_time = Inr end_dt
        \<and> resolve_resource_info w resource = (qs, Inr (Found ty rs cal))"
    by (auto simp: check_resource_availability_def check_resource_availability_try_def
        catch_all_def split: sum.splits resource_info.splits)
next
  assume "\<exists>start_dt end_dt qs ty rs cal. strptime start_time = Inr start_dt
        \<and> strptime end_time = Inr end_dt
        \<and> resolve_resource_info w resource = (qs, Inr (Found ty rs cal))"
  then show "is_report (snd (check_resource_availability w resource start_time end_time))"
    using check_resource_availability_found by blast
qed

lemma check_resource_availability_error:
  assumes "\<not> is_report (snd (check_resource_availability w resource start_time end_time))"
  shows "(\<exists>e. snd (check_resource_availability w resource start_time end_time) =
            Error_json (Str e))
     \<or> snd (check_resource_availability w resource start_time end_time) =
            Error_json (Text (''Risorsa '' @ [CHR 0x27] @ resource @ [CHR 0x27]
                               @ '' non trovata''))"
proof -
  obtain qs r where res: "resolve_resource_info w resource = (qs, r)"
    by (cases "resolve_resource_info w resource") auto
  show ?thesis
  proof (cases "\<exists>ty rs cal. r = Inr (Found ty rs cal)")
    case True
    then obtain ty rs cal where r: "r = Inr (Found ty rs cal)" by blast
    show ?thesis
    proof (cases "strptime start_time")
      case (Inl e)
      then show ?thesis
        by (simp add: check_resource_availability_def check_resource_availability_try_def
            catch_all_def)
    next
      case s: (Inr start_dt)
      show ?thesis
      proof (cases "strptime end_time")
        case (Inl e)
        with s show ?thesis
          by (simp add: check_resource_availability_def check_resource_availability_try_def
              catch_all_def)
      next
        case (Inr end_dt)
        with s res r assms check_resource_availability_found show ?thesis by blast
      qed
    qed
  next
    case False
    with res show ?thesis
      by (auto simp: check_resource_availability_def check_resource_availability_try_def
          catch_all_def not_found_message_def split: sum.splits resource_info.splits)
  qed
qed

lemma parse_failure_answers:
  assumes "strptime start_time = Inl x
     \<or> (\<exists>start_dt. strptime start_time = Inr start_dt) \<and> strptime end_time = Inl x"
  shows "get_active_bookings L w start_time end_time = ([], Error_json (Str x))"
    and "check_resource_availability w resource start_time end_time = ([], Error_json (Str x))"
    and "find_free_resources L T w start_time end_time = ([], Error_json (Str x))"
  using assms
  by (auto simp: get_active_bookings_def get_active_bookings_try_def
      check_resource_availability_def check_resource_availability_try_def
      find_free_resources_def find_free_resources_try_def catch_all_def)

lemma resolve_failure_propagates:
  assumes "strptime start_time = Inr start_dt" and "strptime end_time = Inr end_dt"
    and "resolve_resource_info w resource = (qs, Inl e)"
  shows "check_resource_availability w resource start_time end_time = (qs, Error_json (Str e))"
  using assms
  by (simp add: check_resource_availability_def check_resource_availability_try_def
      catch_all_def)

text \<open>
  Claim C9, as amended. The four tools \<open>get_active_bookings\<close>,
  \<open>check_resource_availability\<close>, \<open>find_free_resources\<close> and
  \<open>list_available_resources\<close> return an answer on every input: a report, exactly
  when the conditions stated for each tool hold, and otherwise an error object, which
  carries the text of the exception that was caught (or, for
  \<open>check_resource_availability\<close>, the not-found message) and nothing else: no kind of
  error is recorded in it. A window string that \<open>strptime\<close> rejects raises a
  \<open>ValueError\<close>, and each of the three tools that take a window then answers with the
  error object of that exception and sends no statement. A failure of
  \<open>resolve_resource_info\<close>, which has no handler of its own, reaches the handler of
  \<open>check_resource_availability\<close> and comes back as its error object. What
  \<open>strptime\<close> rejects is less than what is not literally of the form
  \<open>YYYY-MM-DD HH:MM\<close>: fields of one digit are accepted, and such a window is
  answered with a report.
\<close>

theorem tools_answer_report_or_error:
  "(is_report (snd (get_active_bookings L w start_time end_time)) \<longleftrightarrow>
      (\<exists>start_dt end_dt codes d. strptime start_time = Inr start_dt
         \<and> strptime end_time = Inr end_dt \<and> get_calendar_codes w = Inr codes
         \<and> length codes = 3 \<and> db w = Some d))
   \<and> (\<not> is_report (snd (get_active_bookings L w start_time end_time)) \<longrightarrow>
        (\<exists>e. snd (get_active_bookings L w start_time end_time) = Error_json (Str e)))
   \<and> (is_report (snd (check_resource_availability w resource start_time end_time)) \<longleftrightarrow>
        (\<exists>start_dt end_dt qs ty rs cal. strptime start_time = Inr start_dt
           \<and> strptime end_time = Inr end_dt
           \<and> resolve_resource_info w resource = (qs, Inr (Found ty rs cal))))
   \<and> (\<not> is_report (snd (check_resource_availability w resource start_time end_time)) \<longrightarrow>
        (\<exists>e. snd (check_resource_availability w resource start_time end_time) =
            Error_json (Str e))
        \<or> snd (check_resource_availability w resource start_time end_time) =
            Error_json (Text (''Risorsa '' @ [CHR 0x27] @ resource @ [CHR 0x27]
                               @ '' non trovata'')))
   \<and> (is_report (snd (find_free_resources L T w start_time end_time)) \<longleftrightarrow>
        (\<exists>start_dt end_dt d. strptime start_time = Inr start_dt
           \<and> strptime end_time = Inr end_dt \<and> db w = Some d))
   \<and> (\<not> is_report (snd (find_free_resources L T w start_time end_time)) \<longrightarrow>
        (\<exists>e. snd (find_free_resources L T w start_time end_time) = Error_json (Str e)))
   \<and> (is_report (snd (list_available_resources w)) \<longleftrightarrow> (\<exists>d. db w = Some d))
   \<and> (\<not> is_report (snd (list_available_resources w)) \<longrightarrow>
        list_available_resources w = ([], Error_json (Str OperationalError)))
   \<and> (strptime start_time = Inl x
        \<or> (\<exists>start_dt. strptime start_time = Inr start_dt) \<and> strptime end_time = Inl x \<longrightarrow>
        is_ValueError x
        \<and> get_active_bookings L w start_time end_time = ([], Error_json (Str x))
        \<and> check_resource_availability w resource start_time end_time =
            ([], Error_json (Str x))
        \<and> find_free_resources L T w start_time end_time = ([], Error_json (Str x)))
   \<and> ((\<exists>start_dt. strptime start_time = Inr start_dt)
        \<and> (\<exists>end_dt. strptime end_time = Inr end_dt)
        \<and> resolve_resource_info w resource = (qs, Inl e) \<longrightarrow>
        check_resource_availability w resource start_time end_time =
          (qs, Error_json (Str e)))"
proof -
  have parse: "is_ValueError x
        \<and> get_active_bookings L w start_time end_time = ([], Error_json (Str x))
        \<and> check_resource_availability w resource start_time end_time =
            ([], Error_json (Str x))
        \<and> find_free_resources L T w start_time end_time = ([], Error_json (Str x))"
    if h: "strptime start_time = Inl x
        \<or> (\<exists>start_dt. strptime start_time = Inr start_dt) \<and> strptime end_time = Inl x"
  proof -
    from h have "is_ValueError x" using strptime_raises_ValueError by blast
    with parse_failure_answers [OF h] show ?thesis by blast
  qed
  have propag: "check_resource_availability w resource start_time end_time =
          (qs, Error_json (Str e))"
    if "(\<exists>start_dt. strptime start_time = Inr start_dt)
        \<and> (\<exists>end_dt. strptime end_time = Inr end_dt)
        \<and> resolve_resource_info w resource = (qs, Inl e)"
    using that resolve_failure_propagates by blast
  note a = get_active_bookings_is_report [of L w start_time end_time]
    get_active_bookings_error [of L w start_time end_time]
  note b = check_resource_availability_is_report [of w resource start_time end_time]
    check_resource_availability_error [of w resource start_time end_time]
  note c = find_free_resources_is_report [of L T w start_time end_time]
    find_free_resources_error [of L T w start_time end_time]
  note d = list_available_resources_is_report [of w] list_available_resources_error [of w]
  show ?thesis
    apply (intro conjI impI)
              apply (rule a(1))
             apply (erule a(2))
            apply (rule b(1))
           apply (erule b(2))
          apply (rule c(1))
         apply (erule c(2))
        apply (rule d(1))
       apply (erule d(2))
      apply (simp_all only: parse propag)
    done
qed

lemma strptime_lenient:
  "strptime ''2024-6-1 9:5'' = Inr (2024, 6, 1, 9, 5, 0, 0)"
  by (simp add: strptime_eval)

theorem lenient_parse_counterexample:
  "\<not> ymd_hm_form ''2024-6-1 9:5''
   \<and> is_report (snd (get_active_bookings exact_library (aula_world ''CAL1, CAL2,CAL3'')
        ''2024-6-1 9:5'' ''2024-06-01 12:00''))
   \<and> is_report (snd (check_resource_availability (aula_world '''') ''aula01''
        ''2024-6-1 9:5'' ''2024-06-01 12:00''))"
proof -
  have "\<not> ymd_hm_form ''2024-6-1 9:5''"
    by (simp add: ymd_hm_form_def is_digit_def)
  moreover have "is_report (snd (get_active_bookings exact_library
      (aula_world ''CAL1, CAL2,CAL3'') ''2024-6-1 9:5'' ''2024-06-01 12:00''))"
    using get_active_bookings_report [OF strptime_lenient strptime_examples(4)
        calendar_codes_examples(1) _ db_aula_world, of exact_library]
    by simp
  moreover have "is_report (snd (check_resource_availability (aula_world '''') ''aula01''
        ''2024-6-1 9:5'' ''2024-06-01 12:00''))"
    using check_resource_availability_found [OF strptime_lenient strptime_examples(4)
        resolve_aula01 [of "''''"]] .
  ultimately show ?thesis by blast
qed

theorem tools_answer_report_or_error_witness:
  "get_active_bookings exact_library (aula_world ''CAL1, CAL2,CAL3'')
       ''2024-06-01T09:30'' ''2024-06-01 10:30'' =
     ([], Error_json (Str (ValueError_no_match ''2024-06-01T09:30'')))
   \<and> check_resource_availability (aula_world ''CAL1, CAL2,CAL3'') ''aula01''
       ''2024-06-01T09:30'' ''2024-06-01 10:30'' =
     ([], Error_json (Str (ValueError_no_match ''2024-06-01T09:30'')))
   \<and> find_free_resources exact_library aula_types (aula_world ''CAL1, CAL2,CAL3'')
       ''2024-06-01T09:30'' ''2024-06-01 10:30'' =
     ([], Error_json (Str (ValueError_no_match ''2024-06-01T09:30'')))
   \<and> is_report (snd (list_available_resources (aula_world ''CAL1, CAL2,CAL3'')))
   \<and> resolve_resource_info offline_world ''aula01'' = ([], Inl OperationalError)
   \<and> check_resource_availability offline_world ''aula01''
       ''2024-06-01 09:30'' ''2024-06-01 10:30'' = ([], Error_json (Str OperationalError))
   \<and> list_available_resources offline_world = ([], Error_json (Str OperationalError))"
proof -
  have r: "resolve_resource_info offline_world ''aula01'' = ([], Inl OperationalError)"
    by (simp add: resolve_resource_info_def offline_world_def)
  have d: "db offline_world = None"
    by (simp add: offline_world_def)
  show ?thesis
    using tools_answer_report_or_error [where L = exact_library and T = aula_types
        and w = "aula_world ''CAL1, CAL2,CAL3''" and resource = "''aula01''"
        and start_time = "''2024-06-01T09:30''" and end_time = "''2024-06-01 10:30''"
        and x = "ValueError_no_match ''2024-06-01T09:30''"]
      tools_answer_report_or_error [where L = exact_library and T = aula_types
        and w = offline_world and resource = "''aula01''"
        and start_time = "''2024-06-01 09:30''" and end_time = "''2024-06-01 10:30''"
        and qs = "[]" and e = OperationalError]
    by (simp add: strptime_malformed db_aula_world strptime_examples r d)
qed

section \<open>The hours of the report\<close>

lemma set_update_entry:
  "set (update_entry k f kvs) = (\<lambda>(k', v). if k' = k then (k', f v) else (k', v)) ` set kvs"
  by (simp add: update_entry_def)

lemma foldl_add_booking_groups:
  assumes "foldl (add_booking L) ([], 0, fzero L) bs = (kvs, n, t)"
  shows "distinct (map fst kvs) \<and> fst ` set kvs = cod_calendario ` set bs
     \<and> (\<forall>(k, c) \<in> set kvs.
          eventi c = map (evento_info_of L) (filter (\<lambda>b. cod_calendario b = k) bs)
          \<and> ore_totali c = foldl (fadd L) (fzero L)
               (map durata_ore (filter (\<lambda>b. cod_calendario b = k) bs)))
     \<and> t = foldl (fadd L) (fzero L) (map durata_ore bs)"
  using assms
proof (induction bs arbitrary: kvs n t rule: rev_induct)
  case Nil
  then show ?case by simp
next
  case (snoc b bs)
  obtain kvs0 n0 t0 where f0: "foldl (add_booking L) ([], 0, fzero L) bs = (kvs0, n0, t0)"
    by (cases "foldl (add_booking L) ([], 0, fzero L) bs") auto
  from snoc.IH [OF f0]
  have dist0: "distinct (map fst kvs0)"
    and keys0: "fst ` set kvs0 = cod_calendario ` set bs"
    and grp0: "\<And>k c. (k, c) \<in> set kvs0 \<Longrightarrow>
          eventi c = map (evento_info_of L) (filter (\<lambda>b. cod_calendario b = k) bs)
          \<and> ore_totali c = foldl (fadd L) (fzero L)
               (map durata_ore (filter (\<lambda>b. cod_calendario b = k) bs))"
    and t0: "t0 = foldl (fadd L) (fzero L) (map durata_ore bs)"
    by auto
  from snoc.prems f0 have step: "add_booking L (kvs0, n0, t0) b = (kvs, n, t)"
    by simp
  define k where "k = cod_calendario b"
  define by_resource where "by_resource =
     (if k \<notin> fst ` set kvs0
      then kvs0 @ [(k, \<lparr>c_nome_calendario = nome_calendario b, eventi = [],
                        ore_totali = fzero L\<rparr>)]
      else kvs0)"
  define f where "f = (\<lambda>c::'a calendario. c\<lparr>eventi := eventi c @ [evento_info_of L b],
                       ore_totali := fadd L (ore_totali c) (durata_ore b)\<rparr>)"
  have res: "kvs = update_entry k f by_resource" "t = fadd L t0 (durata_ore b)"
    using step unfolding add_booking_def Let_def k_def by_resource_def f_def by simp_all
  have dist: "distinct (map fst by_resource)"
    using dist0 by (auto simp: by_resource_def)
  have keys: "fst ` set by_resource = insert k (fst ` set kvs0)"
    by (auto simp: by_resource_def)
  have grp: "eventi c = map (evento_info_of L) (filter (\<lambda>b. cod_calendario b = k') bs)
          \<and> ore_totali c = foldl (fadd L) (fzero L)
               (map durata_ore (filter (\<lambda>b. cod_calendario b = k') bs))"
    if "(k', c) \<in> set by_resource" for k' c
  proof (cases "(k', c) \<in> set kvs0")
    case True
    then show ?thesis by (rule grp0)
  next
    case False
    with that have new: "k \<notin> fst ` set kvs0" "k' = k"
      "c = \<lparr>c_nome_calendario = nome_calendario b, eventi = [], ore_totali = fzero L\<rparr>"
      by (auto simp: by_resource_def split: if_splits)
    from new(1) keys0 have "filter (\<lambda>b. cod_calendario b = k) bs = []"
      by (auto simp: filter_empty_conv)
    with new show ?thesis by simp
  qed
  have d1: "distinct (map fst kvs)"
    using dist res by simp
  have "fst ` set kvs = set (map fst kvs)" by simp
  also have "\<dots> = set (map fst by_resource)" unfolding res(1) map_fst_update_entry ..
  also have "\<dots> = insert k (cod_calendario ` set bs)" using keys keys0 by simp
  finally have d2: "fst ` set kvs = cod_calendario ` set (bs @ [b])"
    by (auto simp: k_def)
  have d3: "eventi c' = map (evento_info_of L) (filter (\<lambda>b. cod_calendario b = k') (bs @ [b]))
          \<and> ore_totali c' = foldl (fadd L) (fzero L)
               (map durata_ore (filter (\<lambda>b. cod_calendario b = k') (bs @ [b])))"
    if "(k', c') \<in> set kvs" for k' c'
  proof -
    from that obtain c where c: "(k', c) \<in> set by_resource"
      and c': "c' = (if k' = k then f c else c)"
      unfolding res(1) set_update_entry by (auto split: if_splits)
    show ?thesis
    proof (cases "k' = k")
      case True
      with grp [OF c] c' show ?thesis by (simp add: f_def k_def)
    next
      case False
      with grp [OF c] c' show ?thesis by (simp add: k_def)
    qed
  qed
  have d4: "t = foldl (fadd L) (fzero L) (map durata_ore (bs @ [b]))"
    using res(2) t0 by simp
  from d1 d2 d3 d4 show ?case by blast
qed

lemma val_foldl:
  fixes val :: "'f \<Rightarrow> 'r::comm_monoid_add"
  assumes "\<And>a b. val (fa a b) = val a + val b"
  shows "val (foldl fa z xs) = val z + sum_list (map val xs)"
  by (induction xs arbitrary: z) (simp_all add: assms add.assoc)

lemma sum_groups:
  fixes g :: "'b \<Rightarrow> 'r::comm_monoid_add"
  assumes "finite S" and "f ` set bs \<subseteq> S"
  shows "(\<Sum>k\<in>S. sum_list (map g (filter (\<lambda>b. f b = k) bs))) = sum_list (map g bs)"
  using assms(2)
proof (induction bs)
  case Nil
  then show ?case by simp
next
  case (Cons b bs)
  then have mem: "f b \<in> S" and sub: "f ` set bs \<subseteq> S" by auto
  have "(\<Sum>k\<in>S. sum_list (map g (filter (\<lambda>b. f b = k) (b # bs)))) =
        (\<Sum>k\<in>S. (if k = f b then g b else 0) + sum_list (map g (filter (\<lambda>b. f b = k) bs)))"
    by (intro sum.cong) auto
  also have "\<dots> = (\<Sum>k\<in>S. if k = f b then g b else 0)
                    + (\<Sum>k\<in>S. sum_list (map g (filter (\<lambda>b. f b = k) bs)))"
    by (simp add: sum.distrib)
  also have "(\<Sum>k\<in>S. if k = f b then g b else 0) = g b"
    using assms(1) mem by (simp add: sum.delta)
  finally show ?case using Cons.IH [OF sub] by simp
qed

lemma rounded_sum_close:
  fixes val :: "'f \<Rightarrow> 'r::linordered_field"
  assumes "\<And>x. \<bar>val (r x) - val x\<bar> \<le> 1 / 20"
  shows "\<bar>sum_list (map (\<lambda>g. val (r g)) gs) - sum_list (map val gs)\<bar> \<le> of_nat (length gs) / 20"
proof (induction gs)
  case Nil
  then show ?case by simp
next
  case (Cons g gs)
  have "\<bar>sum_list (map (\<lambda>g. val (r g)) (g # gs)) - sum_list (map val (g # gs))\<bar> =
        \<bar>(val (r g) - val g)
          + (sum_list (map (\<lambda>g. val (r g)) gs) - sum_list (map val gs))\<bar>"
    by (simp add: algebra_simps)
  also have "\<dots> \<le> \<bar>val (r g) - val g\<bar>
                    + \<bar>sum_list (map (\<lambda>g. val (r g)) gs) - sum_list (map val gs)\<bar>"
    by (rule abs_triangle_ineq)
  also have "\<dots> \<le> 1 / 20 + of_nat (length gs) / 20"
    by (rule add_mono [OF assms Cons.IH])
  also have "\<dots> = of_nat (length (g # gs)) / 20"
    by (simp add: field_simps)
  finally show ?case .
qed

lemma group_totals_sum:
  fixes val :: "'f \<Rightarrow> 'r::linordered_field"
  assumes add: "\<And>a b. val (fadd L a b) = val a + val b" and zero: "val (fzero L) = 0"
    and fold: "foldl (add_booking L) ([], 0, fzero L) bs = (kvs, n, t)"
  shows "sum_list (map (\<lambda>(k, c). val (ore_totali c)) kvs) = val t"
proof -
  from foldl_add_booking_groups [OF fold]
  have dist: "distinct (map fst kvs)"
    and keys: "fst ` set kvs = cod_calendario ` set bs"
    and grp: "\<And>k c. (k, c) \<in> set kvs \<Longrightarrow>
          ore_totali c = foldl (fadd L) (fzero L)
               (map durata_ore (filter (\<lambda>b. cod_calendario b = k) bs))"
    and t: "t = foldl (fadd L) (fzero L) (map durata_ore bs)"
    by auto
  have v: "val (foldl (fadd L) (fzero L) (map durata_ore xs)) =
           sum_list (map (\<lambda>b. val (durata_ore b)) xs)" for xs
    using val_foldl [of val "fadd L" "fzero L" "map durata_ore xs", OF add] zero
    by (simp add: comp_def)
  define G where "G k = sum_list (map (\<lambda>b. val (durata_ore b))
               (filter (\<lambda>b. cod_calendario b = k) bs))" for k
  have g: "val (ore_totali c) = G k" if "(k, c) \<in> set kvs" for k c
    using grp [OF that] v by (simp add: G_def)
  have m: "map (\<lambda>(k, c). val (ore_totali c)) kvs = map (G \<circ> fst) kvs"
    by (rule map_cong [OF refl]) (use g in auto)
  have "sum_list (map (\<lambda>(k, c). val (ore_totali c)) kvs) = sum_list (map G (map fst kvs))"
    unfolding m map_map by (rule refl)
  also have "\<dots> = sum G (set (map fst kvs))"
    by (rule sum_list_distinct_conv_sum_set [OF dist])
  also have "\<dots> = sum_list (map (\<lambda>b. val (durata_ore b)) bs)"
    unfolding G_def by (rule sum_groups) (use keys in auto)
  finally show ?thesis using v [of bs] t by simp
qed

lemma rows_durata_ore:
  "b \<in> set (active_bookings_rows L d end_dt start_dt codes) \<Longrightarrow>
     durata_ore b = db_hours L (inizio b) (fine b)"
  unfolding active_bookings_rows_mem by (auto simp: booking_of_def)

lemma build_report_groups:
  fixes val :: "'f \<Rightarrow> 'r::linordered_field"
  assumes rep_def: "rep = build_report L start_time end_time start_dt end_dt rows"
  shows "distinct (map fst (risorse rep)) \<and> fst ` set (risorse rep) = cod_calendario ` set rows
     \<and> (\<forall>(k, c) \<in> set (risorse rep).
          eventi c = map (evento_info_of L) (filter (\<lambda>b. cod_calendario b = k) rows)
          \<and> ore_totali c = round1 L (foldl (fadd L) (fzero L)
               (map durata_ore (filter (\<lambda>b. cod_calendario b = k) rows))))
     \<and> riepilogo_ore_totali rep = round1 L (foldl (fadd L) (fzero L) (map durata_ore rows))
     \<and> risorse_impegnate rep = length (risorse rep)
     \<and> ((\<forall>a b. val (fadd L a b) = val a + val b) \<and> val (fzero L) = 0
          \<and> val (round1 L (fzero L)) = 0 \<and> (\<forall>x. \<bar>val (round1 L x) - val x\<bar> \<le> 1 / 20) \<longrightarrow>
          \<bar>val (riepilogo_ore_totali rep)
             - sum_list (map (\<lambda>(k, c). val (ore_totali c)) (risorse rep))\<bar>
             \<le> of_nat (risorse_impegnate rep) / 10)"
proof -
  obtain kvs n t where fold: "foldl (add_booking L) ([], 0, fzero L) rows = (kvs, n, t)"
    by (cases "foldl (add_booking L) ([], 0, fzero L) rows") auto
  define rounded where
    "rounded = map (\<lambda>(k, c). (k, c\<lparr>ore_totali := round1 L (ore_totali c)\<rparr>)) kvs"
  have rep: "risorse rep = rounded" "riepilogo_ore_totali rep = round1 L t"
    "risorse_impegnate rep = length kvs"
    using fold by (simp_all add: rep_def build_report_def rounded_def Let_def)
  from foldl_add_booking_groups [OF fold]
  have dist: "distinct (map fst kvs)"
    and keys: "fst ` set kvs = cod_calendario ` set rows"
    and grp: "\<And>k c. (k, c) \<in> set kvs \<Longrightarrow>
          eventi c = map (evento_info_of L) (filter (\<lambda>b. cod_calendario b = k) rows)
          \<and> ore_totali c = foldl (fadd L) (fzero L)
               (map durata_ore (filter (\<lambda>b. cod_calendario b = k) rows))"
    and t: "t = foldl (fadd L) (fzero L) (map durata_ore rows)"
    by auto
  have fst_rounded: "map fst rounded = map fst kvs"
    by (simp add: rounded_def comp_def case_prod_beta)
  have c1: "distinct (map fst (risorse rep))"
    using dist by (simp add: rep fst_rounded)
  have "fst ` set rounded = fst ` set kvs"
    using arg_cong [OF fst_rounded, of set] by simp
  then have c2: "fst ` set (risorse rep) = cod_calendario ` set rows"
    using keys by (simp add: rep)
  have c3: "eventi c' = map (evento_info_of L) (filter (\<lambda>b. cod_calendario b = k) rows)
          \<and> ore_totali c' = round1 L (foldl (fadd L) (fzero L)
               (map durata_ore (filter (\<lambda>b. cod_calendario b = k) rows)))"
    if "(k, c') \<in> set (risorse rep)" for k c'
  proof -
    from that obtain c where "(k, c) \<in> set kvs" "c' = c\<lparr>ore_totali := round1 L (ore_totali c)\<rparr>"
      by (auto simp: rep rounded_def)
    with grp [of k c] show ?thesis by simp
  qed
  have c4: "riepilogo_ore_totali rep = round1 L (foldl (fadd L) (fzero L) (map durata_ore rows))"
    using rep t by simp
  have c5: "risorse_impegnate rep = length (risorse rep)"
    by (simp add: rep rounded_def)
  have c6: "\<bar>val (riepilogo_ore_totali rep)
             - sum_list (map (\<lambda>(k, c). val (ore_totali c)) (risorse rep))\<bar>
             \<le> of_nat (risorse_impegnate rep) / 10"
    if h: "(\<forall>a b. val (fadd L a b) = val a + val b) \<and> val (fzero L) = 0
          \<and> val (round1 L (fzero L)) = 0 \<and> (\<forall>x. \<bar>val (round1 L x) - val x\<bar> \<le> 1 / 20)"
  proof -
    from h have add: "\<And>a b. val (fadd L a b) = val a + val b" and zero: "val (fzero L) = 0"
      and rzero: "val (round1 L (fzero L)) = 0"
      and close: "\<And>x. \<bar>val (round1 L x) - val x\<bar> \<le> 1 / 20"
      by auto
    define gs where "gs = map (\<lambda>(k, c). ore_totali c) kvs"
    have raw: "sum_list (map val gs) = val t"
      using group_totals_sum [of val L, OF add zero fold]
      by (simp add: gs_def comp_def split_def)
    have rnd: "map (\<lambda>(k, c). val (ore_totali c)) rounded = map (\<lambda>g. val (round1 L g)) gs"
      by (simp add: rounded_def gs_def comp_def split_def)
    have len: "length gs = length kvs" by (simp add: gs_def)
    show ?thesis
    proof (cases "kvs = []")
      case True
      with keys have "rows = []" by simp
      with t have "t = fzero L" by simp
      with True rzero show ?thesis by (simp add: rep rounded_def)
    next
      case False
      then have pos: "1 \<le> length kvs" by (cases kvs) auto
      have "\<bar>val (round1 L t) - sum_list (map (\<lambda>g. val (round1 L g)) gs)\<bar> =
            \<bar>(val (round1 L t) - val t)
              - (sum_list (map (\<lambda>g. val (round1 L g)) gs) - sum_list (map val gs))\<bar>"
        by (simp add: raw)
      also have "\<dots> \<le> \<bar>val (round1 L t) - val t\<bar>
             + \<bar>sum_list (map (\<lambda>g. val (round1 L g)) gs) - sum_list (map val gs)\<bar>"
        by (rule abs_triangle_ineq4)
      also have "\<dots> \<le> 1 / 20 + of_nat (length gs) / 20"
        by (rule add_mono [OF close rounded_sum_close [of val "round1 L", OF close]])
      also have "\<dots> \<le> of_nat (length kvs) / 10"
      proof -
        from pos have "(1::'r) \<le> of_nat (length kvs)" by simp
        then show ?thesis by (simp add: len field_simps)
      qed
      finally show ?thesis by (simp add: rep rnd)
    qed
  qed
  from c1 c2 c3 c4 c5 c6 show ?thesis by blast
qed


lemma round_half_even_close: "\<bar>of_int (round_half_even y) - y\<bar> \<le> 1 / 2"
proof -
  define f :: rat where "f = of_int \<lfloor>y\<rfloor>"
  have b: "f \<le> y" "y < f + 1"
    unfolding f_def by linarith+
  have c: "of_int (round_half_even y) = f \<and> y - f \<le> 1 / 2
         \<or> of_int (round_half_even y) = f + 1 \<and> y - f \<ge> 1 / 2"
    unfolding round_half_even_def Let_def f_def by (simp add: not_less)
  from b c show ?thesis by (auto simp: abs_if)
qed

lemma exact_round1_close: "\<bar>exact_round1 x - x\<bar> \<le> 1 / 20"
proof -
  have "\<bar>exact_round1 x - x\<bar> = \<bar>of_int (round_half_even (x * 10)) - x * 10\<bar> / 10"
    unfolding exact_round1_def by (simp add: abs_if field_simps)
  also have "\<dots> \<le> (1 / 2) / 10"
    by (rule divide_right_mono [OF round_half_even_close]) simp
  finally show ?thesis by simp
qed

lemma exact_round1_zero: "exact_round1 0 = 0"
  by (simp add: exact_round1_def round_half_even_def)

lemma exact_hours_lezione:
  "exact_hours (2024, 6, 1, 10, 0, 0, 0) (2024, 6, 1, 11, 0, 0, 0) = 1"
  by (simp add: exact_hours_def seconds_of_def algebra_simps)

lemma exact_round1_one: "exact_round1 1 = 1"
  by (simp add: exact_round1_def round_half_even_def)


end
